theory Spec2Isabelle
  imports Complex_Main "HOL-Library.Word"
begin

section \<open>JavaScript strings\<close>

text \<open>
  A JavaScript string is a sequence of UTF-16 code units, and \<open>length\<close>, \<open>trim\<close>,
  \<open>startsWith\<close>, \<open>split\<close> all count code units. The model keeps that: a string is a list
  of 16-bit words. \<open>js\<close> turns an Isabelle literal into such a string.
\<close>

type_synonym jschar = "16 word"
type_synonym jsstring = "jschar list"

definition js :: "string \<Rightarrow> jsstring" where
  "js s = map (\<lambda>c. of_nat (of_char c)) s"

text \<open>
  The code units \<open>String.prototype.trim\<close> removes: the WhiteSpace production (tab, VT, FF,
  space, NBSP, BOM and the space separators) and the LineTerminator production.
\<close>

definition isWhiteSpace :: "jschar \<Rightarrow> bool" where
  "isWhiteSpace c =
     (c = 0x09 \<or> c = 0x0A \<or> c = 0x0B \<or> c = 0x0C \<or> c = 0x0D \<or> c = 0x20 \<or> c = 0xA0
      \<or> c = 0x1680 \<or> (0x2000 \<le> c \<and> c \<le> 0x200A) \<or> c = 0x2028 \<or> c = 0x2029
      \<or> c = 0x202F \<or> c = 0x205F \<or> c = 0x3000 \<or> c = 0xFEFF)"

definition trim :: "jsstring \<Rightarrow> jsstring" where
  "trim s = rev (dropWhile isWhiteSpace (rev (dropWhile isWhiteSpace s)))"

definition startsWith :: "jsstring \<Rightarrow> jsstring \<Rightarrow> bool" where
  "startsWith s p = (take (length p) s = p)"

definition endsWith :: "jsstring \<Rightarrow> jsstring \<Rightarrow> bool" where
  "endsWith s p = (length p \<le> length s \<and> drop (length s - length p) s = p)"

fun includes_js :: "jsstring \<Rightarrow> jsstring \<Rightarrow> bool" where
  "includes_js [] p = (p = [])"
| "includes_js (c # cs) p = (startsWith (c # cs) p \<or> includes_js cs p)"

text \<open>\<open>s.split("\n")\<close>: the pieces between line feeds; the empty string gives one empty piece.\<close>

fun split_nl :: "jsstring \<Rightarrow> jsstring list" where
  "split_nl [] = [[]]"
| "split_nl (c # cs) =
     (if c = 0x0A then [] # split_nl cs
      else (case split_nl cs of [] \<Rightarrow> [[c]] | l # ls \<Rightarrow> (c # l) # ls))"

definition isDigit :: "jschar \<Rightarrow> bool" where
  "isDigit c = (0x30 \<le> c \<and> c \<le> 0x39)"

definition digits_value :: "jsstring \<Rightarrow> nat" where
  "digits_value ds = foldl (\<lambda>n c. 10 * n + (unat c - 48)) 0 ds"

text \<open>
  \<open>String.prototype.toLowerCase\<close> follows the Unicode case tables, which are not part of the
  repository; functions that call it take it as the parameter \<open>lc\<close>. \<open>asciiLower\<close> is the
  restriction of it to ASCII, used where a concrete run is evaluated.
\<close>

definition asciiLower :: "jsstring \<Rightarrow> jsstring" where
  "asciiLower s = map (\<lambda>c. if 0x41 \<le> c \<and> c \<le> 0x5A then c + 0x20 else c) s"

section \<open>JSON.parse\<close>

text \<open>
  The values \<open>JSON.parse\<close> produces. An object keeps its members in source order; a property
  read takes the last member of that name, as the parser overwrites earlier ones. A number is
  kept as the exact rational its text denotes.
\<close>

datatype json =
    JNull
  | JBool bool
  | JNumber rat
  | JString jsstring
  | JArray "json list"
  | JObject "(jsstring \<times> json) list"

datatype token = TLBrace | TRBrace | TLBracket | TRBracket | TColon | TComma | TScalar json

definition hexVal :: "jschar \<Rightarrow> nat option" where
  "hexVal c =
     (if 0x30 \<le> c \<and> c \<le> 0x39 then Some (unat c - 0x30)
      else if 0x41 \<le> c \<and> c \<le> 0x46 then Some (unat c - 0x41 + 10)
      else if 0x61 \<le> c \<and> c \<le> 0x66 then Some (unat c - 0x61 + 10)
      else None)"

definition hex4 :: "jschar \<Rightarrow> jschar \<Rightarrow> jschar \<Rightarrow> jschar \<Rightarrow> jschar option" where
  "hex4 a b c d =
     (case (hexVal a, hexVal b, hexVal c, hexVal d) of
        (Some x, Some y, Some z, Some u) \<Rightarrow> Some (of_nat (((x * 16 + y) * 16 + z) * 16 + u))
      | _ \<Rightarrow> None)"

definition unescape :: "jschar \<Rightarrow> jschar option" where
  "unescape e =
     (if e = 0x22 then Some 0x22
      else if e = 0x5C then Some 0x5C
      else if e = 0x2F then Some 0x2F
      else if e = 0x62 then Some 0x08
      else if e = 0x66 then Some 0x0C
      else if e = 0x6E then Some 0x0A
      else if e = 0x72 then Some 0x0D
      else if e = 0x74 then Some 0x09
      else None)"

text \<open>
  The body of a string literal, after its opening quote: the text up to the closing quote,
  escapes decoded, and the input that follows. Control characters are refused.
\<close>

fun lex_string :: "jsstring \<Rightarrow> jsstring \<Rightarrow> (jsstring \<times> jsstring) option" where
  "lex_string [] acc = None"
| "lex_string (c # cs) acc =
     (if c = 0x22 then Some (rev acc, cs)
      else if c = 0x5C then
        (case cs of
           [] \<Rightarrow> None
         | e # r \<Rightarrow>
             if e = 0x75 then
               (case r of
                  a # b # c' # d # r' \<Rightarrow>
                    (case hex4 a b c' d of
                       None \<Rightarrow> None
                     | Some u \<Rightarrow> lex_string r' (u # acc))
                | _ \<Rightarrow> None)
             else
               (case unescape e of
                  None \<Rightarrow> None
                | Some u \<Rightarrow> lex_string r (u # acc)))
      else if c < 0x20 then None
      else lex_string cs (c # acc))"

text \<open>
  A number: \<open>-? (0 | [1-9][0-9]*) (. [0-9]+)? ([eE] [+-]? [0-9]+)?\<close>, with its exact value.
\<close>

definition pow10 :: "int \<Rightarrow> rat" where
  "pow10 e = (if 0 \<le> e then 10 ^ nat e else 1 / 10 ^ nat (- e))"

definition lex_int_part :: "jsstring \<Rightarrow> (jsstring \<times> jsstring) option" where
  "lex_int_part s =
     (case s of
        [] \<Rightarrow> None
      | d # r \<Rightarrow>
          if d = 0x30 then Some ([d], r)
          else if isDigit d then Some (takeWhile isDigit s, dropWhile isDigit s)
          else None)"

definition lex_frac_part :: "jsstring \<Rightarrow> (jsstring \<times> jsstring) option" where
  "lex_frac_part s =
     (case s of
        [] \<Rightarrow> Some ([], s)
      | c # r \<Rightarrow>
          if c = 0x2E then
            (if takeWhile isDigit r = [] then None
             else Some (takeWhile isDigit r, dropWhile isDigit r))
          else Some ([], s))"

definition lex_exp_part :: "jsstring \<Rightarrow> (int \<times> jsstring) option" where
  "lex_exp_part s =
     (case s of
        [] \<Rightarrow> Some (0, s)
      | c # r \<Rightarrow>
          if c = 0x65 \<or> c = 0x45 then
            (let (sgn, r1) =
                   (case r of
                      [] \<Rightarrow> (1, r)
                    | x # r' \<Rightarrow>
                        if x = 0x2B then (1, r')
                        else if x = 0x2D then (- 1, r')
                        else (1, r))
             in if takeWhile isDigit r1 = [] then None
                else Some (sgn * int (digits_value (takeWhile isDigit r1)), dropWhile isDigit r1))
          else Some (0, s))"

definition lex_number :: "jsstring \<Rightarrow> (rat \<times> jsstring) option" where
  "lex_number s =
     (let (neg, s1) = (case s of [] \<Rightarrow> (False, s) | c # r \<Rightarrow> if c = 0x2D then (True, r) else (False, s))
      in case lex_int_part s1 of
           None \<Rightarrow> None
         | Some (ip, s2) \<Rightarrow>
             (case lex_frac_part s2 of
                None \<Rightarrow> None
              | Some (fp, s3) \<Rightarrow>
                  (case lex_exp_part s3 of
                     None \<Rightarrow> None
                   | Some (ex, s4) \<Rightarrow>
                       Some ((if neg then - 1 else 1)
                               * (of_nat (digits_value ip)
                                  + of_nat (digits_value fp) / 10 ^ length fp)
                               * pow10 ex,
                             s4))))"

definition json_ws :: "jschar \<Rightarrow> bool" where
  "json_ws c = (c = 0x20 \<or> c = 0x09 \<or> c = 0x0A \<or> c = 0x0D)"

function lex :: "jsstring \<Rightarrow> token list option" where
  "lex [] = Some []"
| "lex (c # cs) =
     (if json_ws c then lex cs
      else if c = 0x7B then map_option (Cons TLBrace) (lex cs)
      else if c = 0x7D then map_option (Cons TRBrace) (lex cs)
      else if c = 0x5B then map_option (Cons TLBracket) (lex cs)
      else if c = 0x5D then map_option (Cons TRBracket) (lex cs)
      else if c = 0x3A then map_option (Cons TColon) (lex cs)
      else if c = 0x2C then map_option (Cons TComma) (lex cs)
      else if c = 0x22 then
        (case lex_string cs [] of
           None \<Rightarrow> None
         | Some (s, r) \<Rightarrow> map_option (Cons (TScalar (JString s))) (lex r))
      else if c = 0x2D \<or> isDigit c then
        (case lex_number (c # cs) of
           None \<Rightarrow> None
         | Some (q, r) \<Rightarrow> map_option (Cons (TScalar (JNumber q))) (lex r))
      else if startsWith (c # cs) (js ''true'') then
        map_option (Cons (TScalar (JBool True))) (lex (drop 3 cs))
      else if startsWith (c # cs) (js ''false'') then
        map_option (Cons (TScalar (JBool False))) (lex (drop 4 cs))
      else if startsWith (c # cs) (js ''null'') then
        map_option (Cons (TScalar JNull)) (lex (drop 3 cs))
      else None)"
  by pat_completeness auto
termination
proof -
  have lex_string_shorter:
    "\<And>cs acc s r. lex_string cs acc = Some (s, r) \<Longrightarrow> length r < Suc (length cs)"
  proof -
    fix cs acc s r
    show "lex_string cs acc = Some (s, r) \<Longrightarrow> length r < Suc (length cs)"
    proof (induction cs acc rule: lex_string.induct)
      case (1 acc)
      then show ?case by simp
    next
      case (2 c cs acc)
      show ?case
      proof (cases "c = 0x22")
        case True
        with "2.prems" show ?thesis by simp
      next
        case nq: False
        show ?thesis
        proof (cases "c = 0x5C")
          case False
          with nq "2.prems" have "c \<noteq> 0x22" "\<not> c < 0x20" "lex_string cs (c # acc) = Some (s, r)"
            by (auto split: if_splits)
          with False "2.IH"(3) have "length r < Suc (length cs)" by simp
          then show ?thesis by simp
        next
          case bs: True
          with nq "2.prems" obtain e r0 where cs: "cs = e # r0"
            by (cases cs) auto
          show ?thesis
          proof (cases "e = 0x75")
            case True
            with nq bs cs "2.prems" obtain a b c' d r' u where
              r0: "r0 = a # b # c' # d # r'" and h: "hex4 a b c' d = Some u" and
              rec: "lex_string r' (u # acc) = Some (s, r)"
              by (auto split: list.splits option.splits)
            from "2.IH"(1) nq bs cs True r0 h rec have "length r < Suc (length r')"
              by simp
            with cs r0 show ?thesis by simp
          next
            case False
            with nq bs cs "2.prems" obtain u where
              h: "unescape e = Some u" and rec: "lex_string r0 (u # acc) = Some (s, r)"
              by (auto split: option.splits)
            from "2.IH"(2) nq bs cs False h rec have "length r < Suc (length r0)"
              by simp
            with cs show ?thesis by simp
          qed
        qed
      qed
    qed
  qed
  have dw: "\<And>xs :: jsstring. length (dropWhile isDigit xs) \<le> length xs"
    by (simp add: length_dropWhile_le)
  have lex_int_part_shorter:
    "\<And>s a b. lex_int_part s = Some (a, b) \<Longrightarrow> length b < length s"
    unfolding lex_int_part_def
    by (auto split: list.splits if_splits simp: le_imp_less_Suc length_dropWhile_le)
  have lex_frac_part_shorter:
    "\<And>s a b. lex_frac_part s = Some (a, b) \<Longrightarrow> length b \<le> length s"
    unfolding lex_frac_part_def
    by (auto split: list.splits if_splits simp: le_SucI length_dropWhile_le)
  have lex_exp_part_shorter:
    "\<And>s a b. lex_exp_part s = Some (a, b) \<Longrightarrow> length b \<le> length s"
    unfolding lex_exp_part_def Let_def
    by (auto split: list.splits if_splits prod.splits
        simp: le_SucI length_dropWhile_le intro: le_SucI order_trans [OF dw])
  have lex_number_shorter:
    "\<And>c cs q r. lex_number (c # cs) = Some (q, r) \<Longrightarrow> length r < Suc (length cs)"
  proof -
    fix c cs q r
    assume n: "lex_number (c # cs) = Some (q, r)"
    define s1 where "s1 = (if c = 0x2D then cs else c # cs)"
    have s1: "length s1 \<le> Suc (length cs)" by (simp add: s1_def)
    from n obtain a s2 b s3 e where
      i: "lex_int_part s1 = Some (a, s2)" and
      f: "lex_frac_part s2 = Some (b, s3)" and
      x: "lex_exp_part s3 = Some (e, r)"
      unfolding lex_number_def Let_def s1_def
      by (auto split: if_splits option.splits prod.splits)
    from lex_int_part_shorter [OF i] lex_frac_part_shorter [OF f] lex_exp_part_shorter [OF x] s1
    show "length r < Suc (length cs)" by linarith
  qed
  show ?thesis
    by (relation "measure length")
       (auto dest: lex_string_shorter lex_number_shorter simp: le_imp_less_Suc)
qed

text \<open>
  The grammar over tokens, as a pushdown machine: \<open>frame\<close> is an open array or object,
  \<open>phase\<close> is what may come next.
\<close>

datatype frame =
    InArray "json list"
  | InObject "(jsstring \<times> json) list"
  | InMember "(jsstring \<times> json) list" jsstring

datatype phase = PValue | PValueOrEnd | PKeyOrEnd | PKey | PColon | PCommaOrEnd | PDone json

fun complete_value :: "json \<Rightarrow> frame list \<Rightarrow> (phase \<times> frame list) option" where
  "complete_value v [] = Some (PDone v, [])"
| "complete_value v (InArray es # st) = Some (PCommaOrEnd, InArray (v # es) # st)"
| "complete_value v (InMember ms k # st) = Some (PCommaOrEnd, InObject ((k, v) # ms) # st)"
| "complete_value v (InObject ms # st) = None"

fun close_array :: "frame list \<Rightarrow> (phase \<times> frame list) option" where
  "close_array (InArray es # st) = complete_value (JArray (rev es)) st"
| "close_array _ = None"

fun close_object :: "frame list \<Rightarrow> (phase \<times> frame list) option" where
  "close_object (InObject ms # st) = complete_value (JObject (rev ms)) st"
| "close_object _ = None"

fun start_value :: "token \<Rightarrow> frame list \<Rightarrow> (phase \<times> frame list) option" where
  "start_value (TScalar v) st = complete_value v st"
| "start_value TLBrace st = Some (PKeyOrEnd, InObject [] # st)"
| "start_value TLBracket st = Some (PValueOrEnd, InArray [] # st)"
| "start_value _ st = None"

fun start_member :: "token \<Rightarrow> frame list \<Rightarrow> (phase \<times> frame list) option" where
  "start_member (TScalar (JString k)) (InObject ms # st) = Some (PColon, InMember ms k # st)"
| "start_member _ _ = None"

fun after_comma :: "frame list \<Rightarrow> (phase \<times> frame list) option" where
  "after_comma (InArray es # st) = Some (PValue, InArray es # st)"
| "after_comma (InObject ms # st) = Some (PKey, InObject ms # st)"
| "after_comma _ = None"

fun json_step :: "phase \<Rightarrow> frame list \<Rightarrow> token \<Rightarrow> (phase \<times> frame list) option" where
  "json_step PValue st t = start_value t st"
| "json_step PValueOrEnd st t = (if t = TRBracket then close_array st else start_value t st)"
| "json_step PKeyOrEnd st t = (if t = TRBrace then close_object st else start_member t st)"
| "json_step PKey st t = start_member t st"
| "json_step PColon st t = (if t = TColon then Some (PValue, st) else None)"
| "json_step PCommaOrEnd st t =
     (if t = TComma then after_comma st
      else if t = TRBracket then close_array st
      else if t = TRBrace then close_object st
      else None)"
| "json_step (PDone v) st t = None"

fun parse_tokens :: "phase \<Rightarrow> frame list \<Rightarrow> token list \<Rightarrow> json option" where
  "parse_tokens ph st [] = (case ph of PDone v \<Rightarrow> Some v | _ \<Rightarrow> None)"
| "parse_tokens ph st (t # ts) =
     (case json_step ph st t of
        None \<Rightarrow> None
      | Some (ph', st') \<Rightarrow> parse_tokens ph' st' ts)"

text \<open>\<open>JSON.parse(text)\<close>: \<open>None\<close> is the SyntaxError it throws.\<close>

definition JSON_parse :: "jsstring \<Rightarrow> json option" where
  "JSON_parse s = (case lex s of None \<Rightarrow> None | Some ts \<Rightarrow> parse_tokens PValue [] ts)"

text \<open>
  A property read \<open>v.k\<close> on a parsed value: \<open>None\<close> is \<open>undefined\<close>. Truthiness is
  JavaScript's: a number is falsy when it is zero as a double, that is, when its exact value
  rounds to zero (magnitude at most \<open>2^-1075\<close>).
\<close>

definition getprop :: "json \<Rightarrow> jsstring \<Rightarrow> json option" where
  "getprop v k = (case v of JObject ms \<Rightarrow> map_of (rev ms) k | _ \<Rightarrow> None)"

fun truthy :: "json \<Rightarrow> bool" where
  "truthy JNull = False"
| "truthy (JBool b) = b"
| "truthy (JNumber q) = (\<not> \<bar>q\<bar> \<le> 1 / 2 ^ 1075)"
| "truthy (JString s) = (s \<noteq> [])"
| "truthy (JArray es) = True"
| "truthy (JObject ms) = True"

section \<open>Errors, the runtime and the manager's state\<close>

datatype parse_reason = NoJsonOutput | JsonSyntaxError | TypeErrorThrown

text \<open>
  The errors the modelled methods throw, by what they say. \<open>availability\<close> is the result of
  the decoder check (\<open>checkFFmpegAvailability\<close>): nothing yet, the object a check produced,
  or the error the check caught (its \<open>available\<close> is \<open>false\<close>).
\<close>

datatype error =
    PythonNotFound
  | SpawnFailure
  | TypeError
  | FFmpegNotAvailable availability
  | UnsupportedAudioType
  | AudioFileEmpty
  | FsError
  | ScriptNotFound jsstring
  | WhisperTimedOut
  | WhisperFailed "int option" jsstring bool
  | PythonMissing
  | WhisperProcessError jsstring
  | ParseFailed parse_reason
  | CommandError jsstring
  | PipUpgradeFailed
  | InstallFailed jsstring
  | BundledFFmpegNotFound jsstring
  | FFmpegNotExecutable jsstring
  | ModuleNotFound
and availability = NotChecked | CheckResult json | CheckFailed error

datatype signal = SIGTERM | SIGKILL

text \<open>What \<open>spawn(candidate, ["--version"])\<close> does: it throws, it emits \<open>error\<close>, or the
  child closes with an exit code (\<open>None\<close> is \<open>null\<close>) and the text it wrote to stdout and
  stderr, in arrival order.\<close>

datatype probe = SpawnThrows | SpawnError | Exited "int option" jsstring

text \<open>What a child with separate output streams does: \<open>spawn\<close> throws, the child emits
  \<open>error\<close> with a message, or it closes with a code, its stdout and its stderr.\<close>

datatype child_result =
    ChildThrows
  | ChildError jsstring
  | ChildClosed "int option" jsstring jsstring

text \<open>The events the transcription child and its timer deliver to \<open>runWhisperProcess\<close>.\<close>

datatype wevent =
    StdoutData jsstring
  | StderrData jsstring
  | TimerFires
  | Close "int option"
  | ErrorEvent bool jsstring

text \<open>Values an audio argument can be. An object is its own properties; a typed array or
  a DataView other than \<open>Uint8Array\<close> is an object whose \<open>buffer\<close> is an \<open>ArrayBuffer\<close>.
  What a number or a boolean holds plays no part: neither has a \<open>buffer\<close>.\<close>

datatype jsvalue =
    Undefined
  | Null
  | Boolean bool
  | Number rat
  | String jsstring
  | ArrayBuffer "8 word list"
  | Uint8Array "8 word list"
  | Object "(jsstring \<times> jsvalue) list"

type_synonym command = "jsstring \<times> jsstring list"

text \<open>
  Everything the code reads from outside itself: the process, the \<open>os\<close>, \<open>path\<close>, \<open>fs\<close>,
  \<open>crypto\<close> and \<open>Buffer\<close> modules, and what each child process does.
\<close>

record world =
  platform :: jsstring
  environ :: "jsstring \<Rightarrow> jsstring option"
  resourcesPath :: "jsstring option"
  dirname :: jsstring
  homedir :: jsstring
  tmpdir :: jsstring
  randomUUID :: jsstring
  toLowerCase :: "jsstring \<Rightarrow> jsstring"
  path_join :: "jsstring list \<Rightarrow> jsstring"
  path_isAbsolute :: "jsstring \<Rightarrow> bool"
  fs_exists :: "jsstring \<Rightarrow> bool"
  fs_executable :: "jsstring \<Rightarrow> bool"
  writeFile_fails :: "jsstring \<Rightarrow> bool"
  stat_fails :: "jsstring \<Rightarrow> bool"
  unlink_fails :: "jsstring \<Rightarrow> bool"
  base64_decode :: "jsstring \<Rightarrow> 8 word list"
  Buffer_from_other :: "jsvalue \<Rightarrow> error + 8 word list"
  ffmpeg_static :: "error + jsstring option"
  asar_root_replaced :: "jsstring \<Rightarrow> jsstring"
  version_probe :: "jsstring \<Rightarrow> probe"
  system_ffmpeg_runs :: bool
  ffmpeg_check_child :: "command \<Rightarrow> child_result"
  whisper_events :: "command \<Rightarrow> wevent list"
  pip :: "nat \<Rightarrow> jsstring list \<Rightarrow> jsstring + jsstring"

text \<open>The fields of \<open>WhisperManager\<close> the modelled methods read or write. \<open>mlx\<close> stands for
  \<open>this.useMlx && this.mlxInstalled?.installed\<close>; a download handle is the child's number.\<close>

record manager =
  pythonCmd :: "jsstring option"
  mlx :: bool
  cachedFFmpegPath :: "jsstring option"
  cachedFFmpegAvailability :: availability
  currentDownloadProcess :: "nat option"

text \<open>An optional string as a condition: \<open>undefined\<close>, \<open>null\<close> and the empty string are
  falsy.\<close>

definition truthy_str :: "jsstring option \<Rightarrow> bool" where
  "truthy_str c = (case c of None \<Rightarrow> False | Some p \<Rightarrow> p \<noteq> [])"

definition or_else :: "'a \<Rightarrow> 'a option \<Rightarrow> 'a" where
  "or_else d x = (case x of None \<Rightarrow> d | Some v \<Rightarrow> v)"

definition existsSync :: "world \<Rightarrow> jsstring \<Rightarrow> bool" where
  "existsSync w p = (p \<noteq> [] \<and> fs_exists w p)"

text \<open>\<open>process.env.X || d\<close>: an unset or empty variable gives the default.\<close>

definition env_or :: "world \<Rightarrow> jsstring \<Rightarrow> jsstring \<Rightarrow> jsstring" where
  "env_or w k d = (case environ w k of None \<Rightarrow> d | Some v \<Rightarrow> if v = [] then d else v)"

definition env_set :: "world \<Rightarrow> jsstring \<Rightarrow> bool" where
  "env_set w k = (case environ w k of None \<Rightarrow> False | Some v \<Rightarrow> v \<noteq> [])"

section \<open>Interpreter resolution\<close>

text \<open>The match of \<open>/Python (\d+)\.(\d+)/i\<close> at the start of a string, then anywhere in it
  (leftmost). The numbers are the exact values of the digit runs.\<close>

definition version_at :: "jsstring \<Rightarrow> (nat \<times> nat) option" where
  "version_at s =
     (if asciiLower (take 7 s) = js ''python '' then
        (let r = drop 7 s; d1 = takeWhile isDigit r in
         if d1 = [] then None
         else (case dropWhile isDigit r of
                 [] \<Rightarrow> None
               | dot # r2 \<Rightarrow>
                   if dot = 0x2E \<and> takeWhile isDigit r2 \<noteq> []
                   then Some (digits_value d1, digits_value (takeWhile isDigit r2))
                   else None))
      else None)"

fun match_version :: "jsstring \<Rightarrow> (nat \<times> nat) option" where
  "match_version [] = None"
| "match_version (c # cs) =
     (case version_at (c # cs) of
        Some v \<Rightarrow> Some v
      | None \<Rightarrow> match_version cs)"

definition getPythonVersion :: "world \<Rightarrow> jsstring \<Rightarrow> error + (nat \<times> nat) option" where
  "getPythonVersion w pythonPath =
     (case version_probe w pythonPath of
        SpawnThrows \<Rightarrow> Inl SpawnFailure
      | SpawnError \<Rightarrow> Inr None
      | Exited code output \<Rightarrow> Inr (if code = Some 0 then match_version output else None))"

definition isPythonVersionSupported :: "(nat \<times> nat) option \<Rightarrow> bool" where
  "isPythonVersionSupported version = (case version of None \<Rightarrow> False | Some (major, minor) \<Rightarrow> major = 3)"

text \<open>\<open>s.replace(/^["']|["']$/g, "")\<close>: one quote off the front, then one off the end of
  what is left.\<close>

definition isQuote :: "jschar \<Rightarrow> bool" where
  "isQuote c = (c = 0x22 \<or> c = 0x27)"

definition strip_quotes :: "jsstring \<Rightarrow> jsstring" where
  "strip_quotes s =
     (let s1 = (case s of [] \<Rightarrow> [] | c # r \<Rightarrow> if isQuote c then r else s)
      in if s1 \<noteq> [] \<and> isQuote (last s1) then butlast s1 else s1)"

text \<open>\<open>candidateSet\<close> is a \<open>Set\<close>: insertion order, no element twice.\<close>

definition addCandidate :: "jsstring list \<Rightarrow> jsstring \<Rightarrow> jsstring list" where
  "addCandidate candidateSet candidate =
     (if candidate = [] then candidateSet
      else let sanitized = strip_quotes (trim candidate) in
           if sanitized = [] then candidateSet
           else if sanitized \<in> set candidateSet then candidateSet
           else candidateSet @ [sanitized])"

definition getWindowsPythonCandidates :: "world \<Rightarrow> jsstring list" where
  "getWindowsPythonCandidates w =
     (let versionSuffixes = map js [''313'', ''312'', ''311'', ''310'', ''39'', ''38''];
          systemDrive = env_or w (js ''SystemDrive'') (js ''C:'');
          windowsDir = env_or w (js ''WINDIR'') (path_join w [systemDrive, js ''Windows'']);
          localAppData = env_or w (js ''LOCALAPPDATA'') [];
          windowsApps = path_join w [localAppData, js ''Microsoft'', js ''WindowsApps''];
          baseDirs =
            (if env_set w (js ''LOCALAPPDATA'')
             then [path_join w [localAppData, js ''Programs'', js ''Python'']] else [])
            @ (if env_set w (js ''ProgramFiles'') then [env_or w (js ''ProgramFiles'') []] else [])
            @ (if env_set w (js ''ProgramFiles(x86)'')
               then [env_or w (js ''ProgramFiles(x86)'') []] else [])
            @ [systemDrive]
      in map js [''py'', ''py.exe'', ''python3'', ''python3.exe'', ''python'', ''python.exe'']
         @ [path_join w [windowsDir, js ''py.exe'']]
         @ (if env_set w (js ''LOCALAPPDATA'')
            then [path_join w [windowsApps, js ''python.exe''],
                  path_join w [windowsApps, js ''python3.exe'']]
            else [])
         @ concat (map (\<lambda>baseDir.
                     map (\<lambda>suffix. path_join w [baseDir, js ''Python'' @ suffix, js ''python.exe''])
                       versionSuffixes)
                   (filter (\<lambda>baseDir. baseDir \<noteq> []) baseDirs)))"

definition commonCandidates :: "jsstring list" where
  "commonCandidates = map js
     [''python3.12'', ''python3.11'', ''python3.10'', ''python3'', ''python'',
      ''/usr/bin/python3.12'', ''/usr/bin/python3.11'', ''/usr/bin/python3.10'',
      ''/usr/bin/python3'',
      ''/usr/local/bin/python3.12'', ''/usr/local/bin/python3.11'',
      ''/usr/local/bin/python3.10'', ''/usr/local/bin/python3'',
      ''/opt/homebrew/bin/python3.12'', ''/opt/homebrew/bin/python3.11'',
      ''/opt/homebrew/bin/python3.10'', ''/opt/homebrew/bin/python3'',
      ''/usr/bin/python'', ''/usr/local/bin/python'']"

definition candidateSet :: "world \<Rightarrow> jsstring list" where
  "candidateSet w =
     foldl addCandidate []
       ((if env_set w (js ''OPENWHISPR_PYTHON'') then [env_or w (js ''OPENWHISPR_PYTHON'') []] else [])
        @ (if platform w = js ''win32'' then getWindowsPythonCandidates w else [])
        @ [path_join w [homedir w, js ''.pyenv'', js ''shims'', js ''python3''],
           path_join w [homedir w, js ''.pyenv'', js ''shims'', js ''python'']]
        @ commonCandidates)"

text \<open>The \<open>for\<close> loop over the candidates: the interpreter found, if any, and the
  candidates that were spawned with \<open>--version\<close>, in order.\<close>

fun probeCandidates :: "world \<Rightarrow> jsstring list \<Rightarrow> jsstring option \<times> command list" where
  "probeCandidates w [] = (None, [])"
| "probeCandidates w (pythonPath # rest) =
     (if path_isAbsolute w pythonPath \<and> \<not> existsSync w pythonPath then probeCandidates w rest
      else
        (case getPythonVersion w pythonPath of
           Inl e \<Rightarrow>
             (let (r, probed) = probeCandidates w rest
              in (r, (pythonPath, [js ''--version'']) # probed))
         | Inr version \<Rightarrow>
             if isPythonVersionSupported version
             then (Some pythonPath, [(pythonPath, [js ''--version''])])
             else (let (r, probed) = probeCandidates w rest
                   in (r, (pythonPath, [js ''--version'']) # probed))))"

text \<open>
  The specification's words, to compare the loop with. A candidate can be probed unless it
  is an absolute path that does not exist. A version text is the word \<open>Python\<close> in any
  letter case, a space, a run of decimal digits, a dot, and a run of decimal digits taken
  as far as it goes. The version that an output reports is that of the first version text
  in it.
\<close>

definition probeable :: "world \<Rightarrow> jsstring \<Rightarrow> bool" where
  "probeable w p = (\<not> (path_isAbsolute w p \<and> \<not> existsSync w p))"

definition python_word :: "jsstring \<Rightarrow> bool" where
  "python_word k =
     (\<exists>c1 c2 c3 c4 c5 c6.
        k = [c1, c2, c3, c4, c5, c6, 0x20]
        \<and> (c1 = 0x50 \<or> c1 = 0x70) \<and> (c2 = 0x59 \<or> c2 = 0x79) \<and> (c3 = 0x54 \<or> c3 = 0x74)
        \<and> (c4 = 0x48 \<or> c4 = 0x68) \<and> (c5 = 0x4F \<or> c5 = 0x6F) \<and> (c6 = 0x4E \<or> c6 = 0x6E))"

definition decimal :: "jsstring \<Rightarrow> bool" where
  "decimal d = (d \<noteq> [] \<and> set d \<subseteq> set (js ''0123456789''))"

fun decimal_value :: "jsstring \<Rightarrow> nat" where
  "decimal_value [] = 0"
| "decimal_value (c # cs) = (unat c - 48) * 10 ^ length cs + decimal_value cs"

definition version_text :: "jsstring \<Rightarrow> jsstring \<Rightarrow> jsstring \<Rightarrow> bool" where
  "version_text s major minor =
     (\<exists>k rest.
        s = k @ major @ [0x2E] @ minor @ rest
        \<and> python_word k \<and> decimal major \<and> decimal minor
        \<and> (rest = [] \<or> hd rest \<notin> set (js ''0123456789'')))"

definition first_version :: "jsstring \<Rightarrow> nat \<times> nat \<Rightarrow> bool" where
  "first_version output v =
     (\<exists>before s major minor.
        output = before @ s \<and> version_text s major minor
        \<and> v = (decimal_value major, decimal_value minor)
        \<and> (\<forall>n < length before. \<forall>d1 d2. \<not> version_text (drop n output) d1 d2))"

definition reportsPython3 :: "jsstring \<Rightarrow> bool" where
  "reportsPython3 output = (\<exists>v. first_version output v \<and> fst v = 3)"

text \<open>A candidate is supported when it can be probed, its probe closes with exit code 0 and
  the output reports major version 3. Without the exit code it is the candidate the
  specification accepts.\<close>

definition supported :: "world \<Rightarrow> jsstring \<Rightarrow> bool" where
  "supported w p =
     (probeable w p
      \<and> (case version_probe w p of
            Exited code output \<Rightarrow> code = Some 0 \<and> reportsPython3 output
          | _ \<Rightarrow> False))"

definition supported_any_exit :: "world \<Rightarrow> jsstring \<Rightarrow> bool" where
  "supported_any_exit w p =
     (probeable w p
      \<and> (case version_probe w p of
            Exited code output \<Rightarrow> reportsPython3 output
          | _ \<Rightarrow> False))"

definition version_cmd :: "jsstring \<Rightarrow> command" where
  "version_cmd p = (p, [js ''--version''])"

definition searchPython :: "world \<Rightarrow> manager \<Rightarrow> (error + jsstring) \<times> manager \<times> command list" where
  "searchPython w m =
     (case probeCandidates w (candidateSet w) of
        (Some pythonPath, probed) \<Rightarrow> (Inr pythonPath, m\<lparr>pythonCmd := Some pythonPath\<rparr>, probed)
      | (None, probed) \<Rightarrow> (Inl PythonNotFound, m, probed))"

text \<open>\<open>findPythonExecutable\<close>: the cached interpreter when \<open>this.pythonCmd\<close> is truthy, the
  search otherwise. It returns the result, the manager and the \<open>spawn\<close> calls it made.\<close>

definition findPythonExecutable ::
  "world \<Rightarrow> manager \<Rightarrow> (error + jsstring) \<times> manager \<times> command list" where
  "findPythonExecutable w m =
     (case pythonCmd m of
        None \<Rightarrow> searchPython w m
      | Some p \<Rightarrow> if p \<noteq> [] then (Inr p, m, []) else searchPython w m)"

section \<open>Decoder path\<close>

definition development :: "world \<Rightarrow> bool" where
  "development w = (environ w (js ''NODE_ENV'') = Some (js ''development''))"

definition binaryName :: "world \<Rightarrow> jsstring" where
  "binaryName w = (if platform w = js ''win32'' then js ''ffmpeg.exe'' else js ''ffmpeg'')"

text \<open>\<open>s.replace(pat, rep)\<close> with a string pattern: the first occurrence.\<close>

fun replace_first :: "jsstring \<Rightarrow> jsstring \<Rightarrow> jsstring \<Rightarrow> jsstring" where
  "replace_first [] pat rep = (if pat = [] then rep else [])"
| "replace_first (c # cs) pat rep =
     (if startsWith (c # cs) pat then rep @ drop (length pat) (c # cs)
      else c # replace_first cs pat rep)"

text \<open>The first half of the outer \<open>try\<close>: the path the bundled binary should have.
  \<open>None\<close> is the \<open>null\<close> that \<open>require("ffmpeg-static")\<close> exports on a platform it has no
  binary for; \<open>null.endsWith\<close> throws.\<close>

definition primaryFFmpegPath :: "world \<Rightarrow> error + jsstring option" where
  "primaryFFmpegPath w =
     (if \<not> development w \<and> truthy_str (resourcesPath w) then
        Inr (Some (path_join w
          [or_else [] (resourcesPath w), js ''app.asar.unpacked'', js ''node_modules'',
           js ''ffmpeg-static'', binaryName w]))
      else
        (case ffmpeg_static w of
           Inl e \<Rightarrow> Inl e
         | Inr None \<Rightarrow> if platform w = js ''win32'' then Inl TypeError else Inr None
         | Inr (Some p) \<Rightarrow>
             Inr (Some (if platform w = js ''win32'' \<and> \<not> endsWith p (js ''.exe'')
                        then p @ js ''.exe'' else p))))"

text \<open>The rest of the outer \<open>try\<close>: the alternatives when the path does not exist, then the
  existence and the executability checks. \<open>Inl\<close> is what the \<open>try\<close> throws.\<close>

definition bundledFFmpeg :: "world \<Rightarrow> error + jsstring" where
  "bundledFFmpeg w =
     (case primaryFFmpegPath w of
        Inl e \<Rightarrow> Inl e
      | Inr None \<Rightarrow> Inl TypeError
      | Inr (Some p0) \<Rightarrow>
          (let possiblePaths =
                 [replace_first p0 (js ''app.asar'') (js ''app.asar.unpacked''),
                  asar_root_replaced w p0,
                  path_join w [or_else [] (resourcesPath w), js ''app.asar.unpacked'',
                    js ''node_modules'', js ''ffmpeg-static'', binaryName w]];
               ffmpegPath =
                 (if existsSync w p0 then p0
                  else (case find (existsSync w) possiblePaths of None \<Rightarrow> p0 | Some q \<Rightarrow> q))
           in if \<not> existsSync w ffmpegPath then Inl (BundledFFmpegNotFound ffmpegPath)
              else if \<not> fs_executable w ffmpegPath then Inl (FFmpegNotExecutable ffmpegPath)
              else Inr ffmpegPath))"

text \<open>\<open>getFFmpegPath\<close>: the cached path when truthy; else the bundled binary, or, when the
  \<open>try\<close> threw, the system binary's name whether or not \<open>--version\<close> ran. The result is
  stored in the cache. It returns the path, the manager and the commands it ran.\<close>

definition getFFmpegPath :: "world \<Rightarrow> manager \<Rightarrow> jsstring \<times> manager \<times> command list" where
  "getFFmpegPath w m =
     (if truthy_str (cachedFFmpegPath m) then (or_else [] (cachedFFmpegPath m), m, [])
      else
        (let (ffmpegPath, ran) =
               (case bundledFFmpeg w of
                  Inr p \<Rightarrow> (p, [])
                | Inl e \<Rightarrow>
                    (if system_ffmpeg_runs w then binaryName w else binaryName w,
                     [(binaryName w, [js ''--version''])]))
         in (ffmpegPath, m\<lparr>cachedFFmpegPath := Some ffmpegPath\<rparr>, ran)))"

section \<open>Transcription\<close>

datatype transcript = Transcribed jsstring | NoTranscription json

definition isJsonLine :: "jsstring \<Rightarrow> bool" where
  "isJsonLine trimmed = (startsWith trimmed (js ''{'') \<and> endsWith trimmed (js ''}''))"

text \<open>The two soft outcomes and the success of \<open>parseWhisperResult\<close>, from the parsed
  object. Reading a property of \<open>null\<close>, and calling \<open>trim\<close> on a truthy \<open>text\<close> that is not
  a string, throw a TypeError.\<close>

definition interpretResult :: "json \<Rightarrow> error + transcript" where
  "interpretResult result =
     (if result = JNull then Inl (ParseFailed TypeErrorThrown)
      else if getprop result (js ''success'') = Some (JBool False) then
        Inr (NoTranscription
          (case getprop result (js ''error'') of
             None \<Rightarrow> JString (js ''Transcription failed'')
           | Some e \<Rightarrow> if truthy e then e else JString (js ''Transcription failed'')))
      else
        (case getprop result (js ''text'') of
           None \<Rightarrow>
             Inr (NoTranscription (JString
               (js ''Transcription produced no text (possible audio issue or model failure)'')))
         | Some t \<Rightarrow>
             if \<not> truthy t then
               Inr (NoTranscription (JString
                 (js ''Transcription produced no text (possible audio issue or model failure)'')))
             else
               (case t of
                  JString text \<Rightarrow>
                    if trim text = [] then
                      Inr (NoTranscription (JString
                        (js ''Transcription produced no text (possible audio issue or model failure)'')))
                    else Inr (Transcribed (trim text))
                | _ \<Rightarrow> Inl (ParseFailed TypeErrorThrown))))"

text \<open>\<open>parseWhisperResult\<close>. Every throw inside its \<open>try\<close> is rethrown as
  "Failed to parse Whisper output: ...", here \<open>ParseFailed\<close> with the cause.\<close>

definition jsonLines :: "jsstring \<Rightarrow> jsstring list" where
  "jsonLines stdout = map trim (filter (\<lambda>line. trim line \<noteq> []) (split_nl stdout))"

definition parseWhisperResult :: "jsstring \<Rightarrow> error + transcript" where
  "parseWhisperResult stdout =
     (case find isJsonLine (jsonLines stdout) of
        None \<Rightarrow> Inl (ParseFailed NoJsonOutput)
      | Some jsonLine \<Rightarrow>
          (case JSON_parse jsonLine of
             None \<Rightarrow> Inl (ParseFailed JsonSyntaxError)
           | Some result \<Rightarrow> interpretResult result))"

definition getWhisperScriptPath :: "world \<Rightarrow> manager \<Rightarrow> error + jsstring" where
  "getWhisperScriptPath w m =
     (let script = (if mlx m then js ''whisper_bridge_mlx_official.py'' else js ''whisper_bridge.py'')
      in if development w then Inr (path_join w [dirname w, js ''..'', js ''..'', script])
         else (case resourcesPath w of
                 None \<Rightarrow> Inl TypeError
               | Some rp \<Rightarrow> Inr (path_join w [rp, js ''app.asar.unpacked'', script])))"

definition unavailable :: "jsstring \<Rightarrow> availability" where
  "unavailable msg = CheckResult (JObject [(js ''available'', JBool False), (js ''error'', JString msg)])"

text \<open>What the promise inside \<open>checkFFmpegAvailability\<close> resolves to.\<close>

definition ffmpegCheckResult :: "child_result \<Rightarrow> error + availability" where
  "ffmpegCheckResult c =
     (case c of
        ChildThrows \<Rightarrow> Inl SpawnFailure
      | ChildError msg \<Rightarrow> Inr (unavailable msg)
      | ChildClosed code out err \<Rightarrow>
          if code = Some 0 then
            (case JSON_parse out of
               Some result \<Rightarrow> Inr (CheckResult result)
             | None \<Rightarrow> Inr (unavailable (js ''Failed to parse FFmpeg check result'')))
          else Inr (unavailable (if err \<noteq> [] then err else js ''FFmpeg check failed'')))"

definition checkFFmpegAvailability ::
  "world \<Rightarrow> manager \<Rightarrow> availability \<times> manager \<times> command list" where
  "checkFFmpegAvailability w m =
     (if cachedFFmpegAvailability m \<noteq> NotChecked \<and> cachedFFmpegAvailability m \<noteq> CheckResult JNull
      then (cachedFFmpegAvailability m, m, [])
      else
        (case findPythonExecutable w m of
           (Inl e, m1, l1) \<Rightarrow> (CheckFailed e, m1\<lparr>cachedFFmpegAvailability := CheckFailed e\<rparr>, l1)
         | (Inr py, m1, l1) \<Rightarrow>
             (case getWhisperScriptPath w m1 of
                Inl e \<Rightarrow> (CheckFailed e, m1\<lparr>cachedFFmpegAvailability := CheckFailed e\<rparr>, l1)
              | Inr script \<Rightarrow>
                  (let (ffmpegPath, m2, l2) = getFFmpegPath w m1;
                       cmd = (py, [script, js ''--mode'', js ''check-ffmpeg'']);
                       r = (case ffmpegCheckResult (ffmpeg_check_child w cmd) of
                              Inl e \<Rightarrow> CheckFailed e
                            | Inr a \<Rightarrow> a)
                   in (r, m2\<lparr>cachedFFmpegAvailability := r\<rparr>, l1 @ l2 @ [cmd])))))"

text \<open>\<open>ffmpegCheck.available\<close>, as the condition of an \<open>if\<close>.\<close>

definition available :: "availability \<Rightarrow> error + bool" where
  "available a =
     (case a of
        NotChecked \<Rightarrow> Inl TypeError
      | CheckFailed e \<Rightarrow> Inr False
      | CheckResult r \<Rightarrow>
          if r = JNull then Inl TypeError
          else Inr (case getprop r (js ''available'') of None \<Rightarrow> False | Some v \<Rightarrow> truthy v))"

fun truthy_value :: "jsvalue \<Rightarrow> bool" where
  "truthy_value Undefined = False"
| "truthy_value Null = False"
| "truthy_value (Boolean b) = b"
| "truthy_value (Number q) = (q \<noteq> 0)"
| "truthy_value (String s) = (s \<noteq> [])"
| "truthy_value (ArrayBuffer bs) = True"
| "truthy_value (Uint8Array bs) = True"
| "truthy_value (Object ps) = True"

text \<open>\<open>audioBlob.buffer\<close> where the first three branches did not apply: an object's own
  property (the last of that name); a primitive has none.\<close>

definition buffer_of :: "jsvalue \<Rightarrow> jsvalue" where
  "buffer_of v = (case v of Object ps \<Rightarrow> or_else Undefined (map_of (rev ps) (js ''buffer'')) | _ \<Rightarrow> Undefined)"

definition Buffer_from :: "world \<Rightarrow> jsvalue \<Rightarrow> error + 8 word list" where
  "Buffer_from w v =
     (case v of
        ArrayBuffer bs \<Rightarrow> Inr bs
      | Uint8Array bs \<Rightarrow> Inr bs
      | _ \<Rightarrow> Buffer_from_other w v)"

definition toBuffer :: "world \<Rightarrow> jsvalue \<Rightarrow> error + 8 word list" where
  "toBuffer w audioBlob =
     (case audioBlob of
        ArrayBuffer bs \<Rightarrow> Inr bs
      | Uint8Array bs \<Rightarrow> Inr bs
      | String s \<Rightarrow> Inr (base64_decode w s)
      | _ \<Rightarrow>
          if truthy_value audioBlob \<and> truthy_value (buffer_of audioBlob)
          then Buffer_from w (buffer_of audioBlob)
          else Inl UnsupportedAudioType)"

type_synonym files = "jsstring \<rightharpoonup> 8 word list"

definition tempAudioPath :: "world \<Rightarrow> jsstring" where
  "tempAudioPath w = path_join w [tmpdir w, js ''whisper_audio_'' @ randomUUID w @ js ''.wav'']"

text \<open>\<open>createTempAudioFile\<close>: the path or the error, and the files afterwards. The size
  \<open>stat\<close> reports is the length of what was written.\<close>

definition createTempAudioFile :: "world \<Rightarrow> files \<Rightarrow> jsvalue \<Rightarrow> (error + jsstring) \<times> files" where
  "createTempAudioFile w fs audioBlob =
     (case toBuffer w audioBlob of
        Inl e \<Rightarrow> (Inl e, fs)
      | Inr buffer \<Rightarrow>
          if writeFile_fails w (tempAudioPath w) then (Inl FsError, fs)
          else
            (let fs' = fs(tempAudioPath w \<mapsto> buffer) in
             if stat_fails w (tempAudioPath w) then (Inl FsError, fs')
             else if length buffer = 0 then (Inl AudioFileEmpty, fs')
             else (Inr (tempAudioPath w), fs')))"

text \<open>\<open>cleanupTempFile\<close>: \<open>unlink\<close> in a \<open>try\<close> whose \<open>catch\<close> is empty.\<close>

definition cleanupTempFile :: "world \<Rightarrow> files \<Rightarrow> jsstring \<Rightarrow> files" where
  "cleanupTempFile w fs p = (if unlink_fails w p then fs else fs(p := None))"

section \<open>The transcription child: handlers of \<open>runWhisperProcess\<close>\<close>

text \<open>
  The variables the handlers close over, and what they did: \<open>kills\<close> are the signals sent
  to the child, \<open>settle_calls\<close> the calls of \<open>resolve\<close> (\<open>Inr\<close>) and \<open>reject\<close> (\<open>Inl\<close>) in order.
  A promise takes the first call and ignores the later ones.
\<close>

record invocation =
  stdout_acc :: jsstring
  stderr_acc :: jsstring
  isResolved :: bool
  timer_pending :: bool
  kills :: "signal list"
  settle_calls :: "(error + jsstring) list"

definition spawned :: invocation where
  "spawned = \<lparr>stdout_acc = [], stderr_acc = [], isResolved = False, timer_pending = True,
               kills = [], settle_calls = []\<rparr>"

definition settle :: "error + jsstring \<Rightarrow> invocation \<Rightarrow> invocation" where
  "settle r st = st\<lparr>settle_calls := settle_calls st @ [r]\<rparr>"

definition promise_state :: "invocation \<Rightarrow> (error + jsstring) option" where
  "promise_state st = (case settle_calls st of [] \<Rightarrow> None | r # _ \<Rightarrow> Some r)"

text \<open>The callback of \<open>setTimeout\<close>. It runs only while the timer is pending.\<close>

definition on_timeout :: "invocation \<Rightarrow> invocation" where
  "on_timeout st =
     (if \<not> isResolved st
      then settle (Inl WhisperTimedOut) (st\<lparr>kills := kills st @ [SIGTERM]\<rparr>)
      else st)"

definition ffmpegIssue :: "jsstring \<Rightarrow> bool" where
  "ffmpegIssue stderr =
     (includes_js stderr (js ''ffmpeg'')
      \<or> includes_js stderr (js ''No such file or directory'')
      \<or> includes_js stderr (js ''FFmpeg not found''))"

definition on_close :: "int option \<Rightarrow> invocation \<Rightarrow> invocation" where
  "on_close code st =
     (if isResolved st then st
      else
        (let st1 = st\<lparr>isResolved := True, timer_pending := False\<rparr> in
         if code = Some 0 then settle (Inr (stdout_acc st1)) st1
         else settle (Inl (WhisperFailed code (stderr_acc st1) (ffmpegIssue (stderr_acc st1)))) st1))"

definition on_error :: "bool \<Rightarrow> jsstring \<Rightarrow> invocation \<Rightarrow> invocation" where
  "on_error enoent msg st =
     (if isResolved st then st
      else
        (let st1 = st\<lparr>isResolved := True, timer_pending := False\<rparr> in
         if enoent then settle (Inl PythonMissing) st1
         else settle (Inl (WhisperProcessError msg)) st1))"

fun deliver :: "wevent \<Rightarrow> invocation \<Rightarrow> invocation" where
  "deliver (StdoutData d) st = st\<lparr>stdout_acc := stdout_acc st @ d\<rparr>"
| "deliver (StderrData d) st = st\<lparr>stderr_acc := stderr_acc st @ d\<rparr>"
| "deliver TimerFires st =
     (if timer_pending st then on_timeout (st\<lparr>timer_pending := False\<rparr>) else st)"
| "deliver (Close code) st = on_close code st"
| "deliver (ErrorEvent enoent msg) st = on_error enoent msg st"

definition handle_events :: "wevent list \<Rightarrow> invocation" where
  "handle_events evs = foldl (\<lambda>st ev. deliver ev st) spawned evs"



record options =
  opt_model :: "jsstring option"
  opt_language :: "jsstring option"

text \<open>
  \<open>runWhisperProcess\<close>. \<open>None\<close> as the result is a promise that never settles: no settling
  event arrives, or the executor stops at \<open>ffmpegPath = unpackedPath\<close>, an assignment to a
  \<open>const\<close>, which throws inside the \<open>async\<close> executor before the child is spawned.
\<close>

definition runWhisperProcess ::
  "world \<Rightarrow> manager \<Rightarrow> jsstring \<Rightarrow> jsstring \<Rightarrow> jsstring option
     \<Rightarrow> (error + jsstring) option \<times> manager \<times> command list" where
  "runWhisperProcess w m audioPath model language =
     (case findPythonExecutable w m of
        (Inl e, m1, l1) \<Rightarrow> (Some (Inl e), m1, l1)
      | (Inr py, m1, l1) \<Rightarrow>
          (case getWhisperScriptPath w m1 of
             Inl e \<Rightarrow> (Some (Inl e), m1, l1)
           | Inr script \<Rightarrow>
               if \<not> existsSync w script then (Some (Inl (ScriptNotFound script)), m1, l1)
               else
                 (let args = [script, audioPath, js ''--model'', model]
                        @ (if truthy_str language then [js ''--language'', or_else [] language] else [])
                        @ [js ''--output-format'', js ''json''];
                      (ffmpegPath, m2, l2) = getFFmpegPath w m1
                  in if includes_js ffmpegPath (js ''app.asar'')
                        \<and> \<not> includes_js ffmpegPath (js ''app.asar.unpacked'')
                        \<and> existsSync w (replace_first ffmpegPath (js ''app.asar'') (js ''app.asar.unpacked''))
                     then (None, m2, l1 @ l2)
                     else (promise_state (handle_events (whisper_events w (py, args))),
                           m2, l1 @ l2 @ [(py, args)]))))"

text \<open>
  \<open>transcribeLocalWhisper\<close>: the result (\<open>None\<close> when the worker's promise never settles),
  the manager, the files and the commands run.
\<close>

definition transcribeLocalWhisper ::
  "world \<Rightarrow> manager \<Rightarrow> files \<Rightarrow> jsvalue \<Rightarrow> options
     \<Rightarrow> (error + transcript) option \<times> manager \<times> files \<times> command list" where
  "transcribeLocalWhisper w m fs audioBlob opts =
     (let (ffmpegCheck, m1, l1) = checkFFmpegAvailability w m in
      case available ffmpegCheck of
        Inl e \<Rightarrow> (Some (Inl e), m1, fs, l1)
      | Inr False \<Rightarrow> (Some (Inl (FFmpegNotAvailable ffmpegCheck)), m1, fs, l1)
      | Inr True \<Rightarrow>
          (case createTempAudioFile w fs audioBlob of
             (Inl e, fs1) \<Rightarrow> (Some (Inl e), m1, fs1, l1)
           | (Inr audioPath, fs1) \<Rightarrow>
               (let model = (if truthy_str (opt_model opts) then or_else [] (opt_model opts) else js ''base'');
                    language = (if truthy_str (opt_language opts) then opt_language opts else None)
                in case runWhisperProcess w m1 audioPath model language of
                     (None, m2, l2) \<Rightarrow> (None, m2, fs1, l1 @ l2)
                   | (Some (Inl e), m2, l2) \<Rightarrow>
                       (Some (Inl e), m2, cleanupTempFile w fs1 audioPath, l1 @ l2)
                   | (Some (Inr stdout), m2, l2) \<Rightarrow>
                       (Some (parseWhisperResult stdout), m2,
                        cleanupTempFile w fs1 audioPath, l1 @ l2))))"

section \<open>Package installation\<close>

text \<open>\<open>message.replace(/\x1B\[[0-9;]*m/g, "")\<close>: every ESC, \<open>[\<close>, digits and semicolons,
  \<open>m\<close> is removed.\<close>

definition isParam :: "jschar \<Rightarrow> bool" where
  "isParam c = (isDigit c \<or> c = 0x3B)"

function sanitizeErrorMessage :: "jsstring \<Rightarrow> jsstring" where
  "sanitizeErrorMessage [] = []"
| "sanitizeErrorMessage (c # cs) =
     (if c = 0x1B \<and> startsWith cs (js ''['')
         \<and> startsWith (dropWhile isParam (drop 1 cs)) (js ''m'')
      then sanitizeErrorMessage (drop 1 (dropWhile isParam (drop 1 cs)))
      else c # sanitizeErrorMessage cs)"
  by pat_completeness auto
termination
proof (relation "measure length")
  show "wf (measure length)" by simp
next
  fix c :: jschar and cs :: jsstring
  have "length (dropWhile isParam (drop 1 cs)) \<le> length (drop 1 cs)"
    by (rule length_dropWhile_le)
  then show "(drop 1 (dropWhile isParam (drop 1 cs)), c # cs) \<in> measure length"
    by simp
next
  fix c :: jschar and cs :: jsstring
  show "(cs, c # cs) \<in> measure length" by simp
qed

definition shouldRetryWithUserInstall :: "world \<Rightarrow> jsstring \<Rightarrow> bool" where
  "shouldRetryWithUserInstall w message =
     (let normalized = toLowerCase w (sanitizeErrorMessage message) in
      includes_js normalized (js ''permission denied'')
      \<or> includes_js normalized (js ''access is denied'')
      \<or> includes_js normalized (js ''externally-managed-environment'')
      \<or> includes_js normalized (js ''externally managed environment'')
      \<or> includes_js normalized (js ''pep 668'')
      \<or> includes_js normalized (js ''--break-system-packages''))"

definition isTomlResolverError :: "world \<Rightarrow> jsstring \<Rightarrow> bool" where
  "isTomlResolverError w message =
     (let normalized = toLowerCase w (sanitizeErrorMessage message) in
      includes_js normalized (js ''pyproject.toml'') \<or> includes_js normalized (js ''tomlerror''))"

definition formatWhisperInstallError :: "world \<Rightarrow> jsstring \<Rightarrow> jsstring" where
  "formatWhisperInstallError w message =
     (let formatted = (if sanitizeErrorMessage message \<noteq> [] then sanitizeErrorMessage message
                       else js ''Whisper installation failed.'');
          lower = toLowerCase w formatted
      in if includes_js lower (js ''microsoft visual c++'')
         then js ''Microsoft Visual C++ build tools required. Install Visual Studio Build Tools.''
         else if includes_js lower (js ''no matching distribution'')
         then js ''Python version incompatible. OpenAI Whisper requires Python 3.8-3.11.''
         else formatted)"

text \<open>\<open>runCommand\<close> is not among the sources: \<open>pip w n args\<close> is what its \<open>n\<close>-th call of a
  run does with these arguments, the message of the error it rejects with (\<open>Inl\<close>) or the
  value it resolves to (\<open>Inr\<close>). Each call is appended to the log of commands run.\<close>

definition runCommand ::
  "world \<Rightarrow> command list \<Rightarrow> jsstring \<Rightarrow> jsstring list \<Rightarrow> (jsstring + jsstring) \<times> command list" where
  "runCommand w done_cmds cmd args = (pip w (length done_cmds) args, done_cmds @ [(cmd, args)])"

definition upgradePipArgs :: "world \<Rightarrow> jsstring list" where
  "upgradePipArgs w =
     [js ''-m'', js ''pip'', js ''install'']
     @ (if platform w = js ''darwin'' then [js ''--user''] else [])
     @ [js ''--upgrade'', js ''pip'']"

definition buildInstallArgs :: "bool \<Rightarrow> bool \<Rightarrow> jsstring list" where
  "buildInstallArgs user legacy =
     [js ''-m'', js ''pip'', js ''install'']
     @ (if legacy then [js ''--use-deprecated=legacy-resolver''] else [])
     @ (if user then [js ''--user''] else [])
     @ [js ''-U'', js ''openai-whisper'']"

text \<open>The first \<open>try\<close> of \<open>installWhisper\<close>: the pip upgrade and its fallbacks. \<open>Some\<close> is the
  error it throws.\<close>

definition upgradePhase :: "world \<Rightarrow> jsstring \<Rightarrow> error option \<times> command list" where
  "upgradePhase w py =
     (case runCommand w [] py (upgradePipArgs w) of
        (Inr r, l1) \<Rightarrow> (None, l1)
      | (Inl upgradeError, l1) \<Rightarrow>
          (case runCommand w l1 py
                  [js ''-m'', js ''pip'', js ''install'', js ''--user'', js ''--upgrade'', js ''pip''] of
             (Inr r, l2) \<Rightarrow> (None, l2)
           | (Inl userError, l2) \<Rightarrow>
               if isTomlResolverError w (sanitizeErrorMessage upgradeError)
                  \<or> isTomlResolverError w (sanitizeErrorMessage userError)
               then
                 (case runCommand w l2 py
                         [js ''-m'', js ''pip'', js ''install'',
                          js ''--use-deprecated=legacy-resolver'', js ''--upgrade'', js ''pip''] of
                    (Inr r, l3) \<Rightarrow> (None, l3)
                  | (Inl legacyError, l3) \<Rightarrow> (Some PipUpgradeFailed, l3))
               else (None, l2)))"

definition rejected :: "jsstring + jsstring \<Rightarrow> error + jsstring" where
  "rejected r = (case r of Inl msg \<Rightarrow> Inl (CommandError msg) | Inr v \<Rightarrow> Inr v)"

text \<open>The second \<open>try\<close>: the package install and its fallbacks, continuing the log \<open>l0\<close>.\<close>

definition installPhase ::
  "world \<Rightarrow> jsstring \<Rightarrow> command list \<Rightarrow> (error + jsstring) \<times> command list" where
  "installPhase w py l0 =
     (let defaultUseUser = (platform w = js ''darwin'') in
      case runCommand w l0 py (buildInstallArgs defaultUseUser False) of
        (Inr r, l1) \<Rightarrow> (Inr r, l1)
      | (Inl err, l1) \<Rightarrow>
          (let cleanMessage = sanitizeErrorMessage err in
           if shouldRetryWithUserInstall w cleanMessage then
             (case runCommand w l1 py (buildInstallArgs True False) of
                (Inr r, l2) \<Rightarrow> (Inr r, l2)
              | (Inl userError, l2) \<Rightarrow>
                  (let userMessage = sanitizeErrorMessage userError in
                   if isTomlResolverError w userMessage then
                     (case runCommand w l2 py (buildInstallArgs True True) of
                        (r, l3) \<Rightarrow> (rejected r, l3))
                   else (Inl (InstallFailed (formatWhisperInstallError w userMessage)), l2)))
           else if isTomlResolverError w cleanMessage then
             (case runCommand w l1 py (buildInstallArgs False True) of
                (Inr r, l2) \<Rightarrow> (Inr r, l2)
              | (Inl legacyError, l2) \<Rightarrow>
                  (let legacyMessage = sanitizeErrorMessage legacyError in
                   if shouldRetryWithUserInstall w legacyMessage then
                     (case runCommand w l2 py (buildInstallArgs True True) of
                        (r, l3) \<Rightarrow> (rejected r, l3))
                   else (Inl (InstallFailed (formatWhisperInstallError w legacyMessage)), l2)))
           else (Inl (InstallFailed (formatWhisperInstallError w cleanMessage)), l1)))"

text \<open>\<open>installWhisper\<close>: the result, the manager and the commands \<open>runCommand\<close> ran.\<close>

definition installWhisper :: "world \<Rightarrow> manager \<Rightarrow> (error + jsstring) \<times> manager \<times> command list" where
  "installWhisper w m =
     (case findPythonExecutable w m of
        (Inl e, m1, probed) \<Rightarrow> (Inl e, m1, [])
      | (Inr py, m1, probed) \<Rightarrow>
          (case upgradePhase w py of
             (Some e, l0) \<Rightarrow> (Inl e, m1, l0)
           | (None, l0) \<Rightarrow> (case installPhase w py l0 of (r, l) \<Rightarrow> (r, m1, l))))"

text \<open>The package installs among the commands run, as their (user, legacy) flags.\<close>

definition strategy :: "command \<Rightarrow> (bool \<times> bool) option" where
  "strategy c =
     (if js ''openai-whisper'' \<in> set (snd c)
      then Some (js ''--user'' \<in> set (snd c), js ''--use-deprecated=legacy-resolver'' \<in> set (snd c))
      else None)"

definition strategies :: "command list \<Rightarrow> (bool \<times> bool) list" where
  "strategies done_cmds = List.map_filter strategy done_cmds"

section \<open>Model download: the tracked handle and cancellation\<close>

text \<open>
  A child process as the handlers see it. \<open>killed\<close> is Node's \<open>subprocess.killed\<close>: it is set
  when \<open>kill\<close> has sent a signal, and says nothing about the child having ended.
  \<open>running\<close> is the child still being there to take a signal; \<open>received\<close> are the signals
  it was sent.
\<close>

record child =
  killed :: bool
  running :: bool
  received :: "signal list"

definition kill :: "signal \<Rightarrow> child \<Rightarrow> child" where
  "kill sig c = (if running c then c\<lparr>killed := True, received := received c @ [sig]\<rparr> else c)"

type_synonym dstate = "manager \<times> (nat \<Rightarrow> child)"

datatype cancel_result = Cancelled | CancelFailed jsstring

text \<open>\<open>cancelDownload\<close>: its result, the children, and whether it set the 3000 ms timer.\<close>

definition cancelDownload :: "dstate \<Rightarrow> cancel_result \<times> (nat \<Rightarrow> child) \<times> bool" where
  "cancelDownload s =
     (case currentDownloadProcess (fst s) of
        Some p \<Rightarrow> (Cancelled, (snd s)(p := kill SIGTERM (snd s p)), True)
      | None \<Rightarrow> (CancelFailed (js ''No active download to cancel''), snd s, False))"

text \<open>The callback of that timer; it reads \<open>this.currentDownloadProcess\<close> when it runs.\<close>

definition cancelGrace :: "dstate \<Rightarrow> dstate" where
  "cancelGrace s =
     (case currentDownloadProcess (fst s) of
        Some p \<Rightarrow> if \<not> killed (snd s p) then (fst s, (snd s)(p := kill SIGKILL (snd s p))) else s
      | None \<Rightarrow> s)"

text \<open>What happens to a download, as events: the spawn in \<open>downloadWhisperModel\<close>, the child
  ending, its \<open>close\<close> and \<open>error\<close> events, the 20-minute timer and its nested 5 s timer, a
  call of \<open>cancelDownload\<close> and its timer.\<close>

datatype devent =
    Spawn nat
  | ChildExit nat
  | CloseEvent nat "int option"
  | ErrorEmitted nat
  | DownloadTimeout nat
  | TimeoutGrace nat
  | CancelCalled
  | CancelGraceFires

fun dstep :: "devent \<Rightarrow> dstate \<Rightarrow> dstate" where
  "dstep (Spawn p) (m, ch) =
     (m\<lparr>currentDownloadProcess := Some p\<rparr>,
      ch(p := \<lparr>killed = False, running = True, received = []\<rparr>))"
| "dstep (ChildExit p) (m, ch) = (m, ch(p := (ch p)\<lparr>running := False\<rparr>))"
| "dstep (CloseEvent p code) (m, ch) = (m\<lparr>currentDownloadProcess := None\<rparr>, ch)"
| "dstep (ErrorEmitted p) (m, ch) = (m\<lparr>currentDownloadProcess := None\<rparr>, ch)"
| "dstep (DownloadTimeout p) (m, ch) = (m, ch(p := kill SIGTERM (ch p)))"
| "dstep (TimeoutGrace p) (m, ch) =
     (if \<not> killed (ch p) then (m, ch(p := kill SIGKILL (ch p))) else (m, ch))"
| "dstep CancelCalled (m, ch) = (m, fst (snd (cancelDownload (m, ch))))"
| "dstep CancelGraceFires (m, ch) = cancelGrace (m, ch)"

definition drun :: "devent list \<Rightarrow> dstate \<Rightarrow> dstate" where
  "drun evs s = foldl (\<lambda>s ev. dstep ev s) s evs"

text \<open>A well-formed history: a child is spawned once, and only a spawned child emits
  \<open>close\<close> or \<open>error\<close>. \<open>ended\<close> are the children that have emitted one of the two.\<close>

fun wellformed :: "nat list \<Rightarrow> devent list \<Rightarrow> bool" where
  "wellformed sp [] = True"
| "wellformed sp (Spawn p # evs) = (p \<notin> set sp \<and> wellformed (p # sp) evs)"
| "wellformed sp (CloseEvent p code # evs) = (p \<in> set sp \<and> wellformed sp evs)"
| "wellformed sp (ErrorEmitted p # evs) = (p \<in> set sp \<and> wellformed sp evs)"
| "wellformed sp (ev # evs) = wellformed sp evs"

fun ended :: "devent list \<Rightarrow> nat list" where
  "ended [] = []"
| "ended (CloseEvent p code # evs) = p # ended evs"
| "ended (ErrorEmitted p # evs) = p # ended evs"
| "ended (ev # evs) = ended evs"

section \<open>A concrete runtime\<close>

text \<open>
  A Linux machine in a packaged build, used where a run is evaluated: no override, no
  pyenv, \<open>python3.12\<close> is not installed, \<open>python3.11\<close> and \<open>python3.10\<close> are; the bundled
  decoder exists and is executable; the decoder check answers that it is available.
\<close>

definition slash_join :: "jsstring list \<Rightarrow> jsstring" where
  "slash_join parts = foldr (\<lambda>p acc. if acc = [] then p else p @ js ''/'' @ acc) parts []"

definition sample_probe :: "jsstring \<Rightarrow> probe" where
  "sample_probe p =
     (if p = js ''python3.11'' then Exited (Some 0) (js ''Python 3.11.4'')
      else if p = js ''python3.10'' then Exited (Some 0) (js ''Python 3.10.12'')
      else SpawnError)"

definition sample_world :: world where
  \<open>sample_world =
     \<lparr>platform = js ''linux'',
      environ = (\<lambda>k. None),
      resourcesPath = Some (js ''/opt/app/resources''),
      dirname = js ''/opt/app/resources/app.asar/src/helpers'',
      homedir = js ''/home/user'',
      tmpdir = js ''/tmp'',
      randomUUID = js ''123e4567-e89b-42d3-a456-426614174000'',
      toLowerCase = asciiLower,
      path_join = slash_join,
      path_isAbsolute = (\<lambda>p. startsWith p (js ''/'')),
      fs_exists = (\<lambda>p. p = js ''/opt/app/resources/app.asar.unpacked/node_modules/ffmpeg-static/ffmpeg''
                       \<or> p = js ''/opt/app/resources/app.asar.unpacked/whisper_bridge.py''),
      fs_executable = (\<lambda>p. True),
      writeFile_fails = (\<lambda>p. False),
      stat_fails = (\<lambda>p. False),
      unlink_fails = (\<lambda>p. False),
      base64_decode = (\<lambda>s. []),
      Buffer_from_other = (\<lambda>v. Inl TypeError),
      ffmpeg_static = Inr None,
      asar_root_replaced = (\<lambda>p. p),
      version_probe = sample_probe,
      system_ffmpeg_runs = False,
      ffmpeg_check_child = (\<lambda>c. ChildClosed (Some 0) (js ''{"available": true}'') []),
      whisper_events = (\<lambda>c. [StdoutData (js ''{"success": true, "text": " hello "}''), Close (Some 0)]),
      pip = (\<lambda>n args. Inr [])\<rparr>\<close>

text \<open>The same machine with other interpreters on its path: one that is not Python, a
  Python 2, one that cannot be spawned, a Python 3.12 whose \<open>--version\<close> run exits with 1,
  and two that work.\<close>

definition mixed_probe :: "jsstring \<Rightarrow> probe" where
  "mixed_probe p =
     (if p = js ''jython'' then Exited (Some 0) (js ''Jython 2.7.3'')
      else if p = js ''python2'' then Exited (Some 0) (js ''Python 2.7.18'')
      else if p = js ''python3.12'' then Exited (Some 1) (js ''Python 3.12.1'')
      else if p = js ''python3.9'' then Exited (Some 0) (js ''python 3.9.7'')
      else if p = js ''python3.11'' then Exited (Some 0) (js ''Python 3.11.4'')
      else SpawnError)"

definition mixed_world :: world where
  "mixed_world = sample_world\<lparr>version_probe := mixed_probe\<rparr>"

definition mixed_candidates :: "jsstring list" where
  "mixed_candidates =
     map js [''/opt/python/bin/python3'', ''jython'', ''python2'', ''pypy3'', ''python3.12'',
             ''python3.9'', ''python3.11'']"

definition fresh_manager :: manager where
  "fresh_manager =
     \<lparr>pythonCmd = None, mlx = False, cachedFFmpegPath = None,
      cachedFFmpegAvailability = NotChecked, currentDownloadProcess = None\<rparr>"

text \<open>A candidate that \<open>addCandidate\<close> stores as it is: not empty, no white space and
  no quote at either end.\<close>

definition clean :: "jsstring \<Rightarrow> bool" where
  "clean c = (c \<noteq> [] \<and> \<not> isWhiteSpace (hd c) \<and> \<not> isWhiteSpace (last c)
              \<and> \<not> isQuote (hd c) \<and> \<not> isQuote (last c))"

text \<open>The manager after start-up on that machine: the interpreter is resolved and the
  decoder check has answered.\<close>

definition ready_manager :: manager where
  "ready_manager =
     fresh_manager\<lparr>pythonCmd := Some (js ''python3.11''),
                     cachedFFmpegAvailability := CheckResult (JObject [(js ''available'', JBool True)])\<rparr>"

definition no_child :: child where
  "no_child = \<lparr>killed = False, running = False, received = []\<rparr>"

text \<open>The same machine as a Mac on which the first package install is refused.\<close>

definition denied_world :: world where
  "denied_world =
     sample_world\<lparr>platform := js ''darwin'',
       pip := (\<lambda>n args.
         if n = 1
         then Inl (js ''ERROR: Could not install packages due to an OSError: [Errno 13] Permission denied'')
         else Inr (js ''Successfully installed''))\<rparr>"

text \<open>The manager and the children before any download.\<close>

definition no_download :: dstate where
  "no_download = (fresh_manager, \<lambda>p. no_child)"

text \<open>Lines put together with line feeds, the inverse of \<open>split_nl\<close> on lines that contain
  none.\<close>

fun join_nl :: "jsstring list \<Rightarrow> jsstring" where
  "join_nl [] = []"
| "join_nl [x] = x"
| "join_nl (x # y # ys) = x @ [0x0A] @ join_nl (y # ys)"

text \<open>A frame of an object, and the states of the JSON machine whose outermost open frame
  is one: what they finish with is an object.\<close>

fun object_frame :: "frame \<Rightarrow> bool" where
  "object_frame (InArray es) = False"
| "object_frame (InObject ms) = True"
| "object_frame (InMember ms k) = True"

fun is_object :: "json \<Rightarrow> bool" where
  "is_object (JObject ms) = True"
| "is_object _ = False"

definition in_object :: "phase \<Rightarrow> frame list \<Rightarrow> bool" where
  "in_object ph st =
     (if st = [] then (case ph of PDone v \<Rightarrow> is_object v | _ \<Rightarrow> False)
      else object_frame (last st) \<and> (case ph of PDone v \<Rightarrow> False | _ \<Rightarrow> True))"

text \<open>The values \<open>createTempAudioFile\<close> turns into a buffer, as its branches test them.\<close>

definition accepts :: "jsvalue \<Rightarrow> bool" where
  "accepts v =
     (case v of
        ArrayBuffer bs \<Rightarrow> True
      | Uint8Array bs \<Rightarrow> True
      | String s \<Rightarrow> True
      | _ \<Rightarrow> truthy_value v \<and> truthy_value (buffer_of v))"

definition no_options :: options where
  "no_options = \<lparr>opt_model = None, opt_language = None\<rparr>"

section \<open>Calculating with string literals\<close>

text \<open>\<open>js\<close> is injective and commutes with the list operations, so that a comparison of two
  literals is decided on the literals.\<close>

lemma js_char_eq_iff:
  "(of_nat (of_char c) :: 16 word) = of_nat (of_char d) \<longleftrightarrow> c = d"
proof -
  have "\<And>x :: char. take_bit 16 (of_char x :: nat) = of_char x"
  proof -
    fix x :: char
    have "(of_char x :: nat) < 256" by (rule nat_of_char_less_256)
    also have "(256 :: nat) < 2 ^ 16" by simp
    finally have "(of_char x :: nat) < 2 ^ 16" .
    then show "take_bit 16 (of_char x :: nat) = of_char x"
      by (simp only: take_bit_nat_eq_self)
  qed
  then show ?thesis
    by (simp add: word_of_nat_eq_iff)
qed

lemma js_eq_iff [simp]: "js a = js b \<longleftrightarrow> a = b"
proof (induction a arbitrary: b)
  case Nil
  then show ?case by (auto simp: js_def)
next
  case (Cons c a)
  then show ?case
    by (cases b) (auto simp: js_def js_char_eq_iff)
qed

lemma js_Nil [simp]: "js [] = []"
  by (simp add: js_def)

lemma js_eq_Nil_iff [simp]: "js a = [] \<longleftrightarrow> a = []"
  by (simp add: js_def)

lemma js_append [simp]: "js a @ js b = js (a @ b)"
  by (simp add: js_def)

lemma js_append_assoc [simp]: "js a @ js b @ r = js (a @ b) @ r"
  by (simp add: js_def)

lemma length_js [simp]: "length (js a) = length a"
  by (simp add: js_def)

lemma take_js [simp]: "take n (js a) = js (take n a)"
  by (simp add: js_def take_map)

lemma drop_js [simp]: "drop n (js a) = js (drop n a)"
  by (simp add: js_def drop_map)

lemma hd_js: "a \<noteq> [] \<Longrightarrow> hd (js a) = of_nat (of_char (hd a))"
  by (simp add: js_def hd_map)

lemma last_js: "a \<noteq> [] \<Longrightarrow> last (js a) = of_nat (of_char (last a))"
  by (simp add: js_def last_map)

lemma startsWith_js [simp]: "startsWith (js a) (js b) = (take (length b) a = b)"
  by (simp add: startsWith_def)

lemma endsWith_js [simp]:
  "endsWith (js a) (js b) = (length b \<le> length a \<and> drop (length a - length b) a = b)"
  by (simp add: endsWith_def)

lemma clean_js:
  "clean (js a) =
     (a \<noteq> [] \<and> \<not> isWhiteSpace (of_nat (of_char (hd a))) \<and> \<not> isWhiteSpace (of_nat (of_char (last a)))
      \<and> \<not> isQuote (of_nat (of_char (hd a))) \<and> \<not> isQuote (of_nat (of_char (last a))))"
  by (cases "a = []") (auto simp: clean_def hd_js last_js)

lemma slash_join_js [simp]:
  "slash_join [] = []"
  "slash_join (js a # ps) = (if slash_join ps = [] then js a else js a @ js ''/'' @ slash_join ps)"
  by (simp_all add: slash_join_def)

section \<open>Interpreter resolution: the first supported candidate\<close>

text \<open>The pattern match of the code against the specification's version text: the digit
  test, the letter case, the value of a digit run, the match at one position and the
  leftmost match.\<close>

lemma isDigit_iff: "isDigit c \<longleftrightarrow> c \<in> set (js ''0123456789'')"
proof
  assume "isDigit c"
  then have "48 \<le> unat c" "unat c \<le> 57"
    by (simp_all add: isDigit_def word_le_nat_alt)
  then have "unat c \<in> {48, 49, 50, 51, 52, 53, 54, 55, 56, 57}"
    by (simp only: insert_iff empty_iff) arith
  then have "of_nat (unat c) \<in> (of_nat ` {48, 49, 50, 51, 52, 53, 54, 55, 56, 57} :: 16 word set)"
    by (rule imageI)
  then show "c \<in> set (js ''0123456789'')"
    by (simp add: js_def)
next
  assume "c \<in> set (js ''0123456789'')"
  then show "isDigit c"
    by (auto simp: js_def isDigit_def)
qed

lemma decimal_iff: "decimal d \<longleftrightarrow> d \<noteq> [] \<and> (\<forall>c \<in> set d. isDigit c)"
  by (auto simp: decimal_def isDigit_iff)

lemma lower_letter:
  fixes c :: jschar
  shows "(if 0x41 \<le> c \<and> c \<le> 0x5A then c + 0x20 else c) = l
         \<longleftrightarrow> (c = l \<and> \<not> (0x41 \<le> l \<and> l \<le> 0x5A))
             \<or> (c = l - 0x20 \<and> 0x41 \<le> l - 0x20 \<and> l - 0x20 \<le> 0x5A)"
  by auto

lemma python_word_iff: "python_word k \<longleftrightarrow> asciiLower k = js ''python ''"
proof
  assume "python_word k"
  then show "asciiLower k = js ''python ''"
    by (auto simp: python_word_def asciiLower_def js_def)
next
  assume a: "asciiLower k = js ''python ''"
  then have "length k = 7"
  proof -
    have "length (asciiLower k) = length k" by (simp add: asciiLower_def)
    with a show ?thesis by simp
  qed
  then obtain c1 c2 c3 c4 c5 c6 c7 where k: "k = [c1, c2, c3, c4, c5, c6, c7]"
    by (auto simp: numeral_eq_Suc length_Suc_conv)
  from a show "python_word k"
    unfolding k python_word_def asciiLower_def list.map js_def
    by (auto simp: lower_letter)
qed

lemma digits_value_foldl:
  "foldl (\<lambda>n c. 10 * n + (unat c - 48)) n ds = n * 10 ^ length ds + decimal_value ds"
  by (induction ds arbitrary: n) (simp_all add: algebra_simps)

lemma digits_value_decimal: "digits_value ds = decimal_value ds"
  by (simp add: digits_value_def digits_value_foldl)

lemma version_at_iff:
  "version_at s = Some v \<longleftrightarrow>
     (\<exists>major minor. version_text s major minor \<and> v = (decimal_value major, decimal_value minor))"
proof
  assume a: "version_at s = Some v"
  define r where "r = drop 7 s"
  define d1 where "d1 = takeWhile isDigit r"
  define t where "t = dropWhile isDigit r"
  from a have kw: "asciiLower (take 7 s) = js ''python ''"
    by (simp add: version_at_def split: if_splits)
  from a kw have d1: "d1 \<noteq> []"
    by (simp add: version_at_def Let_def d1_def r_def split: if_splits)
  from a kw d1 obtain r2 where t: "t = 0x2E # r2" and d2: "takeWhile isDigit r2 \<noteq> []"
    and v: "v = (digits_value d1, digits_value (takeWhile isDigit r2))"
    by (auto simp: version_at_def Let_def d1_def r_def t_def split: if_splits list.splits)
  define d2 where "d2 = takeWhile isDigit r2"
  define rest where "rest = dropWhile isDigit r2"
  have "s = take 7 s @ r" by (simp add: r_def)
  also have "r = d1 @ t" by (simp add: d1_def t_def)
  also have "t = [0x2E] @ d2 @ rest" by (simp add: t d2_def rest_def)
  finally have s: "s = take 7 s @ d1 @ [0x2E] @ d2 @ rest" .
  have "rest = [] \<or> \<not> isDigit (hd rest)"
    unfolding rest_def using hd_dropWhile [of isDigit r2] by blast
  then have rest: "rest = [] \<or> hd rest \<notin> set (js ''0123456789'')"
    by (simp only: isDigit_iff)
  have dd1: "decimal d1"
    using d1 by (auto simp: decimal_iff d1_def dest: set_takeWhileD)
  have dd2: "decimal d2"
    using d2 by (auto simp: decimal_iff d2_def dest: set_takeWhileD)
  have "version_text s d1 d2"
    unfolding version_text_def using s kw rest dd1 dd2
    by (intro exI [of _ "take 7 s"] exI [of _ rest]) (simp add: python_word_iff)
  with v show "\<exists>major minor. version_text s major minor
                 \<and> v = (decimal_value major, decimal_value minor)"
    by (auto simp: digits_value_decimal d2_def)
next
  assume "\<exists>major minor. version_text s major minor
             \<and> v = (decimal_value major, decimal_value minor)"
  then obtain major minor k rest where s: "s = k @ major @ [0x2E] @ minor @ rest"
    and k: "python_word k" and ma: "decimal major" and mi: "decimal minor"
    and rest: "rest = [] \<or> hd rest \<notin> set (js ''0123456789'')"
    and v: "v = (decimal_value major, decimal_value minor)"
    by (auto simp: version_text_def)
  from k have lk: "length k = 7" by (auto simp: python_word_def)
  have nd: "\<not> isDigit 0x2E" by (simp add: isDigit_def)
  from lk have t7: "take 7 s = k" and d7: "drop 7 s = major @ 0x2E # minor @ rest"
    by (simp_all add: s)
  from ma have ad1: "\<And>c. c \<in> set major \<Longrightarrow> isDigit c" and ne1: "major \<noteq> []"
    by (simp_all add: decimal_iff)
  from mi have ad2: "\<And>c. c \<in> set minor \<Longrightarrow> isDigit c" and ne2: "minor \<noteq> []"
    by (simp_all add: decimal_iff)
  have tw1: "takeWhile isDigit (major @ 0x2E # minor @ rest) = major"
    using ad1 nd by (simp add: takeWhile_append2)
  have dw1: "dropWhile isDigit (major @ 0x2E # minor @ rest) = 0x2E # minor @ rest"
    using ad1 nd by (simp add: dropWhile_append2)
  from rest have "takeWhile isDigit rest = []"
    by (cases rest) (auto simp: isDigit_iff)
  then have tw2: "takeWhile isDigit (minor @ rest) = minor"
    using ad2 by (simp add: takeWhile_append2)
  from k have kw: "asciiLower k = js ''python ''" by (simp add: python_word_iff)
  show "version_at s = Some v"
    by (simp add: version_at_def t7 d7 kw tw1 dw1 tw2 ne1 ne2 v digits_value_decimal Let_def)
qed

lemma version_at_None_iff:
  "version_at s = None \<longleftrightarrow> (\<forall>major minor. \<not> version_text s major minor)"
proof -
  have "version_at s \<noteq> None \<longleftrightarrow> (\<exists>v. version_at s = Some v)" by auto
  also have "\<dots> \<longleftrightarrow> (\<exists>major minor. version_text s major minor)"
    by (auto simp: version_at_iff)
  finally show ?thesis by auto
qed

lemma match_version_iff: "match_version out = Some v \<longleftrightarrow> first_version out v"
proof (induction out)
  case Nil
  have "\<And>major minor. \<not> version_text [] major minor"
    by (auto simp: version_text_def python_word_def)
  then show ?case
    by (auto simp: first_version_def)
next
  case (Cons c cs)
  show ?case
  proof (cases "version_at (c # cs)")
    case (Some v')
    then obtain major minor where vt: "version_text (c # cs) major minor"
      and v': "v' = (decimal_value major, decimal_value minor)"
      by (auto simp: version_at_iff)
    have "first_version (c # cs) v \<longleftrightarrow> v = v'"
    proof
      assume "first_version (c # cs) v"
      then obtain before s d1 d2 where o: "c # cs = before @ s" and t: "version_text s d1 d2"
        and v: "v = (decimal_value d1, decimal_value d2)"
        and m: "\<forall>n < length before. \<forall>e1 e2. \<not> version_text (drop n (c # cs)) e1 e2"
        by (auto simp: first_version_def)
      have "before = []"
      proof (rule ccontr)
        assume "before \<noteq> []"
        then have "0 < length before" by simp
        with m have "\<not> version_text (drop 0 (c # cs)) major minor" by blast
        with vt show False by simp
      qed
      with o t have "version_text (c # cs) d1 d2" by simp
      with v have "version_at (c # cs) = Some v"
        by (auto simp: version_at_iff)
      with Some show "v = v'" by simp
    next
      assume "v = v'"
      with vt v' show "first_version (c # cs) v"
        unfolding first_version_def
        by (intro exI [of _ "[]"] exI [of _ "c # cs"] exI [of _ major] exI [of _ minor]) simp
    qed
    with Some show ?thesis by auto
  next
    case None
    then have no: "\<And>e1 e2. \<not> version_text (c # cs) e1 e2"
      by (simp add: version_at_None_iff)
    have "first_version (c # cs) v \<longleftrightarrow> first_version cs v"
    proof
      assume "first_version (c # cs) v"
      then obtain before s d1 d2 where o: "c # cs = before @ s" and t: "version_text s d1 d2"
        and v: "v = (decimal_value d1, decimal_value d2)"
        and m: "\<forall>n < length before. \<forall>e1 e2. \<not> version_text (drop n (c # cs)) e1 e2"
        by (auto simp: first_version_def)
      from o t no obtain b' where b: "before = c # b'" and cs: "cs = b' @ s"
        by (cases before) auto
      have "\<forall>n < length b'. \<forall>e1 e2. \<not> version_text (drop n cs) e1 e2"
      proof (intro allI impI)
        fix n e1 e2
        assume "n < length b'"
        then have "Suc n < length before" by (simp add: b)
        with m have "\<not> version_text (drop (Suc n) (c # cs)) e1 e2" by blast
        then show "\<not> version_text (drop n cs) e1 e2" by simp
      qed
      with cs t v show "first_version cs v"
        unfolding first_version_def by blast
    next
      assume "first_version cs v"
      then obtain b' s d1 d2 where cs: "cs = b' @ s" and t: "version_text s d1 d2"
        and v: "v = (decimal_value d1, decimal_value d2)"
        and m: "\<forall>n < length b'. \<forall>e1 e2. \<not> version_text (drop n cs) e1 e2"
        by (auto simp: first_version_def)
      have "\<forall>n < length (c # b'). \<forall>e1 e2. \<not> version_text (drop n (c # cs)) e1 e2"
      proof (intro allI impI)
        fix n e1 e2
        assume n: "n < length (c # b')"
        show "\<not> version_text (drop n (c # cs)) e1 e2"
        proof (cases n)
          case 0
          with no show ?thesis by simp
        next
          case (Suc k)
          with n have "k < length b'" by simp
          with m have "\<not> version_text (drop k cs) e1 e2" by blast
          with Suc show ?thesis by simp
        qed
      qed
      moreover have "c # cs = (c # b') @ s" by (simp add: cs)
      ultimately show "first_version (c # cs) v"
        unfolding first_version_def using t v by blast
    qed
    with None Cons show ?thesis by simp
  qed
qed

lemma reportsPython3_iff:
  "reportsPython3 out \<longleftrightarrow> (case match_version out of None \<Rightarrow> False | Some v \<Rightarrow> fst v = 3)"
  by (auto simp: reportsPython3_def match_version_iff [symmetric] split: option.splits)

lemma isPythonVersionSupported_iff:
  "isPythonVersionSupported (match_version out) \<longleftrightarrow> reportsPython3 out"
  by (auto simp: isPythonVersionSupported_def reportsPython3_iff split: option.splits)

lemma supported_iff:
  "supported w p \<longleftrightarrow>
     probeable w p
     \<and> (case version_probe w p of
           Exited code out \<Rightarrow> code = Some 0 \<and> isPythonVersionSupported (match_version out)
         | _ \<Rightarrow> False)"
  by (simp add: supported_def isPythonVersionSupported_iff split: probe.splits)

lemma supported_any_exit_iff:
  "supported_any_exit w p \<longleftrightarrow>
     probeable w p
     \<and> (case version_probe w p of
           Exited code out \<Rightarrow> isPythonVersionSupported (match_version out)
         | _ \<Rightarrow> False)"
  by (simp add: supported_any_exit_def isPythonVersionSupported_iff split: probe.splits)

text \<open>The loop is a search for the first supported candidate; it spawns the candidates it
  passes that can be probed.\<close>

lemma probeCandidates_first_supported:
  "probeCandidates w cs =
     (find (supported w) cs,
      map version_cmd (filter (probeable w) (takeWhile (\<lambda>c. \<not> supported w c) cs))
      @ (case find (supported w) cs of None \<Rightarrow> [] | Some c \<Rightarrow> [version_cmd c]))"
proof (induction cs)
  case Nil
  then show ?case by simp
next
  case (Cons p rest)
  show ?case
  proof (cases "probeable w p")
    case False
    then have "\<not> supported w p" by (simp add: supported_def)
    with False Cons show ?thesis by (simp add: probeable_def)
  next
    case True
    then have pa: "\<not> (path_isAbsolute w p \<and> \<not> existsSync w p)" by (simp add: probeable_def)
    show ?thesis
    proof (cases "supported w p")
      case True
      with pa show ?thesis
        by (auto simp: supported_iff getPythonVersion_def version_cmd_def
            split: probe.splits option.splits prod.splits)
    next
      case False
      with \<open>probeable w p\<close> pa Cons show ?thesis
        by (auto simp: supported_iff getPythonVersion_def version_cmd_def
            isPythonVersionSupported_def split: probe.splits option.splits prod.splits)
    qed
  qed
qed

lemma searchPython_first_supported:
  "searchPython w m =
     (case find (supported w) (candidateSet w) of
        None \<Rightarrow>
          (Inl PythonNotFound, m, map version_cmd (filter (probeable w) (candidateSet w)))
      | Some c \<Rightarrow>
          (Inr c, m\<lparr>pythonCmd := Some c\<rparr>,
           map version_cmd
             (filter (probeable w) (takeWhile (\<lambda>c. \<not> supported w c) (candidateSet w)))
           @ [version_cmd c]))"
proof (cases "find (supported w) (candidateSet w)")
  case None
  then have "\<forall>c \<in> set (candidateSet w). \<not> supported w c"
    by (simp add: find_None_iff)
  then have tw: "takeWhile (\<lambda>c. \<not> supported w c) (candidateSet w) = candidateSet w"
    by (simp add: takeWhile_eq_all_conv)
  show ?thesis
    by (simp add: searchPython_def probeCandidates_first_supported None tw)
next
  case (Some c)
  then show ?thesis
    by (simp add: searchPython_def probeCandidates_first_supported)
qed

lemma findPythonExecutable_uncached:
  "\<not> truthy_str (pythonCmd m) \<Longrightarrow> findPythonExecutable w m = searchPython w m"
  by (auto simp: findPythonExecutable_def truthy_str_def split: option.splits)

lemma findPythonExecutable_cached:
  "truthy_str (pythonCmd m) \<Longrightarrow> findPythonExecutable w m = (Inr (or_else [] (pythonCmd m)), m, [])"
  by (auto simp: findPythonExecutable_def truthy_str_def or_else_def split: option.splits)

lemma searchPython_fails_iff:
  "(\<exists>e. fst (searchPython w m) = Inl e) \<longleftrightarrow> (\<forall>c \<in> set (candidateSet w). \<not> supported w c)"
proof (cases "find (supported w) (candidateSet w)")
  case None
  then have "\<forall>c \<in> set (candidateSet w). \<not> supported w c"
    by (simp add: find_None_iff)
  then show ?thesis
    by (simp add: searchPython_first_supported None)
next
  case (Some c)
  then have "c \<in> set (candidateSet w)" "supported w c"
    by (auto simp: find_Some_iff)
  with Some show ?thesis
    by (auto simp: searchPython_first_supported)
qed

text \<open>
  C1. With no interpreter cached, \<open>findPythonExecutable\<close> returns the first candidate that
  is supported and stores it. A candidate is supported when it can be probed (it is not an
  absolute path missing from the disk), its \<open>--version\<close> probe closes with exit code 0, and
  the first version text in the probe's output (\<open>Python\<close> in any letter case, a space,
  digits, a dot, digits) has major version 3. The \<open>spawn\<close> calls are the candidates before
  that one that can be probed, then that one: absolute paths that do not exist are not
  probed; a candidate whose probe cannot be spawned, exits with another code, prints no
  version text or prints another major version is passed over; nothing after the first
  supported one is probed. The not-found error is thrown exactly when no candidate is
  supported. The loop itself does so on every list of candidates.
\<close>

theorem findPythonExecutable_first_supported:
  "(\<not> truthy_str (pythonCmd m) \<longrightarrow>
      findPythonExecutable w m =
        (case find (supported w) (candidateSet w) of
           None \<Rightarrow>
             (Inl PythonNotFound, m,
              map version_cmd (filter (probeable w) (candidateSet w)))
         | Some c \<Rightarrow>
             (Inr c, m\<lparr>pythonCmd := Some c\<rparr>,
              map version_cmd
                (filter (probeable w) (takeWhile (\<lambda>c. \<not> supported w c) (candidateSet w)))
              @ [version_cmd c])))
   \<and> (\<not> truthy_str (pythonCmd m) \<longrightarrow>
        ((\<exists>e. fst (findPythonExecutable w m) = Inl e)
           \<longleftrightarrow> (\<forall>c \<in> set (candidateSet w). \<not> supported w c)))
   \<and> fst (probeCandidates w cs) = find (supported w) cs
   \<and> snd (probeCandidates w cs) =
        map version_cmd (filter (probeable w) (takeWhile (\<lambda>c. \<not> supported w c) cs))
        @ (case find (supported w) cs of None \<Rightarrow> [] | Some c \<Rightarrow> [version_cmd c])"
  using searchPython_first_supported [of w m] searchPython_fails_iff [of w m]
    findPythonExecutable_uncached [of m w]
  by (simp add: probeCandidates_first_supported)

lemma trim_clean: "clean c \<Longrightarrow> trim c = c"
proof -
  assume c: "clean c"
  then have 1: "dropWhile isWhiteSpace c = c"
    by (cases c) (auto simp: clean_def)
  from c have "rev c \<noteq> []" "\<not> isWhiteSpace (hd (rev c))"
    by (auto simp: clean_def hd_rev)
  then have 2: "dropWhile isWhiteSpace (rev c) = rev c"
    by (cases "rev c") auto
  show ?thesis by (simp add: trim_def 1 2)
qed

lemma strip_quotes_clean: "clean c \<Longrightarrow> strip_quotes c = c"
  by (cases c) (auto simp: clean_def strip_quotes_def)

lemma addCandidate_clean:
  "clean c \<Longrightarrow> addCandidate cs c = (if c \<in> set cs then cs else cs @ [c])"
  by (auto simp: addCandidate_def trim_clean strip_quotes_clean) (auto simp: clean_def)

lemma foldl_addCandidate_clean:
  "\<forall>c \<in> set xs. clean c \<Longrightarrow> distinct (ys @ xs) \<Longrightarrow> foldl addCandidate ys xs = ys @ xs"
  by (induction xs arbitrary: ys) (auto simp: addCandidate_clean)

lemma candidateSet_sample_world:
  "candidateSet sample_world =
     js ''/home/user/.pyenv/shims/python3'' # js ''/home/user/.pyenv/shims/python''
     # commonCandidates"
proof -
  let ?cs = "js ''/home/user/.pyenv/shims/python3'' # js ''/home/user/.pyenv/shims/python''
     # commonCandidates"
  have cl: "\<forall>c \<in> set ?cs. clean c"
    by (simp add: commonCandidates_def clean_js isWhiteSpace_def isQuote_def)
  have di: "distinct ?cs"
    by (simp add: commonCandidates_def)
  have "candidateSet sample_world = foldl addCandidate [] ?cs"
    by (simp add: candidateSet_def sample_world_def env_set_def)
  also have "\<dots> = ?cs"
    using foldl_addCandidate_clean [OF cl, of "[]"] di by simp
  finally show ?thesis .
qed

text \<open>What the code reads in the outputs of the sample interpreters.\<close>

lemma match_version_samples:
  "match_version (js ''Jython 2.7.3'') = None"
  "match_version (js ''Python 2.7.18'') = Some (2, 7)"
  "match_version (js ''Python 3.12.1'') = Some (3, 12)"
  "match_version (js ''python 3.9.7'') = Some (3, 9)"
  "match_version (js ''Python 3.11.4'') = Some (3, 11)"
  by (simp_all add: version_at_def js_def asciiLower_def isDigit_def digits_value_def)

lemma sample_world_python:
  "\<not> probeable sample_world (js ''/home/user/.pyenv/shims/python3'')"
  "\<not> probeable sample_world (js ''/home/user/.pyenv/shims/python'')"
  "probeable sample_world (js ''python3.12'')"
  "probeable sample_world (js ''python3.11'')"
  "\<not> supported sample_world (js ''/home/user/.pyenv/shims/python3'')"
  "\<not> supported sample_world (js ''/home/user/.pyenv/shims/python'')"
  "\<not> supported sample_world (js ''python3.12'')"
  "supported sample_world (js ''python3.11'')"
proof -
  show "\<not> probeable sample_world (js ''/home/user/.pyenv/shims/python3'')"
    "\<not> probeable sample_world (js ''/home/user/.pyenv/shims/python'')"
    "probeable sample_world (js ''python3.12'')"
    "probeable sample_world (js ''python3.11'')"
    by (simp_all add: probeable_def existsSync_def sample_world_def)
  then show "\<not> supported sample_world (js ''/home/user/.pyenv/shims/python3'')"
    "\<not> supported sample_world (js ''/home/user/.pyenv/shims/python'')"
    by (simp_all add: supported_def)
  show "\<not> supported sample_world (js ''python3.12'')"
    by (simp add: supported_def sample_world_def sample_probe_def)
  show "supported sample_world (js ''python3.11'')"
    by (simp add: supported_iff probeable_def sample_world_def sample_probe_def
        match_version_samples isPythonVersionSupported_def)
qed

lemma searchPython_sample_world:
  "searchPython sample_world m =
     (Inr (js ''python3.11''), m\<lparr>pythonCmd := Some (js ''python3.11'')\<rparr>,
      [version_cmd (js ''python3.12''), version_cmd (js ''python3.11'')])"
proof -
  have f: "find (supported sample_world) (candidateSet sample_world) = Some (js ''python3.11'')"
    unfolding candidateSet_sample_world commonCandidates_def
    by (simp add: sample_world_python)
  have t: "map version_cmd
             (filter (probeable sample_world)
               (takeWhile (\<lambda>c. \<not> supported sample_world c) (candidateSet sample_world)))
           = [version_cmd (js ''python3.12'')]"
    unfolding candidateSet_sample_world commonCandidates_def
    by (simp add: sample_world_python)
  show ?thesis
    by (simp only: searchPython_first_supported f t option.case append.simps)
qed

text \<open>The machine with the mixed interpreters: the candidates are the same, and each is
  judged by what its probe does.\<close>

lemma candidateSet_mixed_world: "candidateSet mixed_world = candidateSet sample_world"
  by (simp add: candidateSet_def mixed_world_def sample_world_def env_set_def)

lemma mixed_world_probeable:
  "\<not> probeable mixed_world (js ''/home/user/.pyenv/shims/python3'')"
  "\<not> probeable mixed_world (js ''/home/user/.pyenv/shims/python'')"
  "\<not> probeable mixed_world (js ''/opt/python/bin/python3'')"
  "probeable mixed_world (js ''jython'')"
  "probeable mixed_world (js ''python2'')"
  "probeable mixed_world (js ''pypy3'')"
  "probeable mixed_world (js ''python3.12'')"
  "probeable mixed_world (js ''python3.9'')"
  "probeable mixed_world (js ''python3.11'')"
  by (simp_all add: probeable_def existsSync_def mixed_world_def sample_world_def)

lemma mixed_world_probe:
  "version_probe mixed_world (js ''jython'') = Exited (Some 0) (js ''Jython 2.7.3'')"
  "version_probe mixed_world (js ''python2'') = Exited (Some 0) (js ''Python 2.7.18'')"
  "version_probe mixed_world (js ''pypy3'') = SpawnError"
  "version_probe mixed_world (js ''python3.12'') = Exited (Some 1) (js ''Python 3.12.1'')"
  "version_probe mixed_world (js ''python3.9'') = Exited (Some 0) (js ''python 3.9.7'')"
  "version_probe mixed_world (js ''python3.11'') = Exited (Some 0) (js ''Python 3.11.4'')"
  by (simp_all add: mixed_world_def mixed_probe_def)

lemma mixed_world_supported:
  "\<not> supported mixed_world (js ''/home/user/.pyenv/shims/python3'')"
  "\<not> supported mixed_world (js ''/home/user/.pyenv/shims/python'')"
  "\<not> supported mixed_world (js ''/opt/python/bin/python3'')"
  "\<not> supported mixed_world (js ''jython'')"
  "\<not> supported mixed_world (js ''python2'')"
  "\<not> supported mixed_world (js ''pypy3'')"
  "\<not> supported mixed_world (js ''python3.12'')"
  "supported mixed_world (js ''python3.9'')"
  "supported mixed_world (js ''python3.11'')"
  by (simp_all add: supported_iff mixed_world_probeable mixed_world_probe match_version_samples
      isPythonVersionSupported_def)

lemma mixed_world_supported_any_exit:
  "\<not> supported_any_exit mixed_world (js ''/home/user/.pyenv/shims/python3'')"
  "\<not> supported_any_exit mixed_world (js ''/home/user/.pyenv/shims/python'')"
  "supported_any_exit mixed_world (js ''python3.12'')"
  by (simp_all add: supported_any_exit_iff mixed_world_probeable mixed_world_probe
      match_version_samples isPythonVersionSupported_def)

lemma searchPython_mixed_world:
  "searchPython mixed_world m =
     (Inr (js ''python3.11''), m\<lparr>pythonCmd := Some (js ''python3.11'')\<rparr>,
      [version_cmd (js ''python3.12''), version_cmd (js ''python3.11'')])"
proof -
  have f: "find (supported mixed_world) (candidateSet mixed_world) = Some (js ''python3.11'')"
    unfolding candidateSet_mixed_world candidateSet_sample_world commonCandidates_def
    by (simp add: mixed_world_supported)
  have t: "map version_cmd
             (filter (probeable mixed_world)
               (takeWhile (\<lambda>c. \<not> supported mixed_world c) (candidateSet mixed_world)))
           = [version_cmd (js ''python3.12'')]"
    unfolding candidateSet_mixed_world candidateSet_sample_world commonCandidates_def
    by (simp add: mixed_world_supported mixed_world_probeable)
  show ?thesis
    by (simp only: searchPython_first_supported f t option.case append.simps)
qed

text \<open>Seven candidates in a row: a missing absolute path (not probed), an interpreter that
  prints no version text, a Python 2, one that cannot be spawned, a Python 3.12 that exits
  with 1, a Python 3.9 and a Python 3.11. The 3.9 is returned, the 3.11 is never probed.
  On that machine the function passes over \<open>python3.12\<close> and returns \<open>python3.11\<close>.\<close>

theorem findPythonExecutable_first_supported_witness:
  "\<not> truthy_str (pythonCmd fresh_manager)
   \<and> findPythonExecutable mixed_world fresh_manager =
       (Inr (js ''python3.11''), fresh_manager\<lparr>pythonCmd := Some (js ''python3.11'')\<rparr>,
        [version_cmd (js ''python3.12''), version_cmd (js ''python3.11'')])
   \<and> (\<exists>c \<in> set (candidateSet mixed_world). supported mixed_world c)
   \<and> fst (probeCandidates mixed_world mixed_candidates) = Some (js ''python3.9'')
   \<and> snd (probeCandidates mixed_world mixed_candidates)
       = [version_cmd (js ''jython''), version_cmd (js ''python2''), version_cmd (js ''pypy3''),
          version_cmd (js ''python3.12''), version_cmd (js ''python3.9'')]"
proof -
  have c: "\<not> truthy_str (pythonCmd fresh_manager)"
    by (simp add: fresh_manager_def truthy_str_def)
  have f: "find (supported mixed_world) (candidateSet mixed_world) = Some (js ''python3.11'')"
    unfolding candidateSet_mixed_world candidateSet_sample_world commonCandidates_def
    by (simp add: mixed_world_supported)
  have t: "map version_cmd
             (filter (probeable mixed_world)
               (takeWhile (\<lambda>c. \<not> supported mixed_world c) (candidateSet mixed_world)))
           = [version_cmd (js ''python3.12'')]"
    unfolding candidateSet_mixed_world candidateSet_sample_world commonCandidates_def
    by (simp add: mixed_world_supported mixed_world_probeable)
  have f7: "find (supported mixed_world) mixed_candidates = Some (js ''python3.9'')"
    by (simp add: mixed_candidates_def mixed_world_supported)
  have t7: "map version_cmd
             (filter (probeable mixed_world)
               (takeWhile (\<lambda>c. \<not> supported mixed_world c) mixed_candidates))
           = [version_cmd (js ''jython''), version_cmd (js ''python2''),
              version_cmd (js ''pypy3''), version_cmd (js ''python3.12'')]"
    by (simp add: mixed_candidates_def mixed_world_supported mixed_world_probeable)
  have ex: "\<exists>c \<in> set (candidateSet mixed_world). supported mixed_world c"
    using f by (metis find_Some_iff nth_mem)
  note inst = findPythonExecutable_first_supported [of fresh_manager mixed_world mixed_candidates]
  from inst [THEN conjunct1, rule_format, OF c]
  have r: "findPythonExecutable mixed_world fresh_manager =
       (Inr (js ''python3.11''), fresh_manager\<lparr>pythonCmd := Some (js ''python3.11'')\<rparr>,
        [version_cmd (js ''python3.12''), version_cmd (js ''python3.11'')])"
    by (simp only: f t option.case append.simps)
  from inst [THEN conjunct2, THEN conjunct2, THEN conjunct1]
  have r1: "fst (probeCandidates mixed_world mixed_candidates) = Some (js ''python3.9'')"
    by (simp only: f7)
  from inst [THEN conjunct2, THEN conjunct2, THEN conjunct2]
  have r2: "snd (probeCandidates mixed_world mixed_candidates)
       = [version_cmd (js ''jython''), version_cmd (js ''python2''), version_cmd (js ''pypy3''),
          version_cmd (js ''python3.12''), version_cmd (js ''python3.9'')]"
    by (simp only: f7 t7 option.case append.simps)
  show ?thesis
    by (intro conjI) (rule c r ex r1 r2)+
qed

text \<open>
  Against C1 as stated. On that machine the first candidate whose probe reports major
  version 3 is \<open>python3.12\<close>: it prints \<open>Python 3.12.1\<close>. Its probe exits with 1, so the
  function passes over it and returns \<open>python3.11\<close>.
\<close>

theorem findPythonExecutable_failed_exit_counterexample:
  "find (supported_any_exit mixed_world) (candidateSet mixed_world) = Some (js ''python3.12'')
   \<and> version_probe mixed_world (js ''python3.12'') = Exited (Some 1) (js ''Python 3.12.1'')
   \<and> match_version (js ''Python 3.12.1'') = Some (3, 12)
   \<and> findPythonExecutable mixed_world fresh_manager =
       (Inr (js ''python3.11''), fresh_manager\<lparr>pythonCmd := Some (js ''python3.11'')\<rparr>,
        [version_cmd (js ''python3.12''), version_cmd (js ''python3.11'')])"
proof -
  have c: "\<not> truthy_str (pythonCmd fresh_manager)"
    by (simp add: fresh_manager_def truthy_str_def)
  have 1: "find (supported_any_exit mixed_world) (candidateSet mixed_world)
           = Some (js ''python3.12'')"
    unfolding candidateSet_mixed_world candidateSet_sample_world commonCandidates_def
    by (simp add: mixed_world_supported_any_exit)
  have 2: "findPythonExecutable mixed_world fresh_manager =
       (Inr (js ''python3.11''), fresh_manager\<lparr>pythonCmd := Some (js ''python3.11'')\<rparr>,
        [version_cmd (js ''python3.12''), version_cmd (js ''python3.11'')])"
    by (simp only: findPythonExecutable_uncached [OF c] searchPython_mixed_world)
  show ?thesis
    by (intro conjI) (rule 1 2 mixed_world_probe(4) match_version_samples(3))+
qed

section \<open>The transcription child: timeout against close\<close>










text \<open>How the timeout gets there. Its callback calls \<open>reject\<close> and leaves \<open>isResolved\<close> as it
  found it; the \<open>close\<close> and \<open>error\<close> handlers set it. So a \<open>close\<close> after the timeout runs
  to its end and calls \<open>reject\<close> or \<open>resolve\<close> once more; the promise, settled by the
  timeout, ignores that call. In the other order \<open>clearTimeout\<close> and the guard stop the
  timer's callback.\<close>

lemma on_timeout_keeps_guard: "isResolved (on_timeout st) = isResolved st"
  by (simp add: on_timeout_def settle_def)

lemma on_close_sets_guard: "isResolved (on_close code st)"
  by (simp add: on_close_def settle_def Let_def)

lemma on_error_sets_guard: "isResolved (on_error enoent msg st)"
  by (simp add: on_error_def settle_def Let_def)

lemma close_after_timeout_calls_again:
  "settle_calls (handle_events [TimerFires, Close None])
     = [Inl WhisperTimedOut, Inl (WhisperFailed None [] False)]
   \<and> promise_state (handle_events [TimerFires, Close None]) = Some (Inl WhisperTimedOut)"
  by (simp add: handle_events_def spawned_def on_timeout_def on_close_def settle_def
      promise_state_def ffmpegIssue_def Let_def js_def)

lemma timer_after_close_adds_nothing:
  "settle_calls (deliver TimerFires (deliver (Close code) st))
     = settle_calls (deliver (Close code) st)"
  by (simp add: on_timeout_def on_close_def settle_def Let_def)



section \<open>Transcription: the temporary artifact\<close>

lemma cleanupTempFile_removes:
  "\<not> unlink_fails w p \<Longrightarrow> cleanupTempFile w fs p p = None"
  by (simp add: cleanupTempFile_def)

text \<open>Once \<open>createTempAudioFile\<close> has returned a path, every way out of the \<open>try\<close> goes
  through \<open>cleanupTempFile\<close>, whose own failure changes nothing else.\<close>

lemma transcribeLocalWhisper_cleans_after_worker:
  assumes "checkFFmpegAvailability w m = (a, m1, l1)" and "available a = Inr True"
    and "createTempAudioFile w fs blob = (Inr p, fs1)"
    and "transcribeLocalWhisper w m fs blob opts = (Some r, m2, fs2, l2)"
  shows "fs2 = cleanupTempFile w fs1 p"
  using assms
  by (auto simp: transcribeLocalWhisper_def Let_def split: prod.splits option.splits sum.splits)

text \<open>The file is written before its size is checked, and \<open>createTempAudioFile\<close> is called
  before the \<open>try\<close>: when the buffer is empty the file stays.\<close>

lemma transcribeLocalWhisper_keeps_empty_file:
  assumes "checkFFmpegAvailability w m = (a, m1, l1)" and "available a = Inr True"
    and "toBuffer w blob = Inr []"
    and "\<not> writeFile_fails w (tempAudioPath w)" and "\<not> stat_fails w (tempAudioPath w)"
  shows "transcribeLocalWhisper w m fs blob opts
           = (Some (Inl AudioFileEmpty), m1, fs(tempAudioPath w \<mapsto> []), l1)"
  using assms
  by (simp add: transcribeLocalWhisper_def createTempAudioFile_def Let_def)

text \<open>
  C3. A zero-byte \<open>Uint8Array\<close> on a machine whose decoder check passes and whose \<open>unlink\<close>
  works: the zero-byte file is written, the call fails with "Audio file is empty", and
  the file is still there when the call has returned. No cleanup ran.
\<close>

theorem transcribeLocalWhisper_leaves_empty_artifact:
  "transcribeLocalWhisper sample_world ready_manager Map.empty (Uint8Array [])
       \<lparr>opt_model = None, opt_language = None\<rparr>
     = (Some (Inl AudioFileEmpty), ready_manager,
        [tempAudioPath sample_world \<mapsto> []], [])
   \<and> unlink_fails sample_world (tempAudioPath sample_world) = False"
proof -
  have a: "checkFFmpegAvailability sample_world ready_manager
             = (CheckResult (JObject [(js ''available'', JBool True)]), ready_manager, [])"
    by (simp add: checkFFmpegAvailability_def ready_manager_def fresh_manager_def)
  have b: "available (CheckResult (JObject [(js ''available'', JBool True)])) = Inr True"
    by (simp add: available_def getprop_def)
  have c: "toBuffer sample_world (Uint8Array []) = Inr []"
    by (simp add: toBuffer_def)
  have d: "\<not> writeFile_fails sample_world (tempAudioPath sample_world)"
          "\<not> stat_fails sample_world (tempAudioPath sample_world)"
          "\<not> unlink_fails sample_world (tempAudioPath sample_world)"
    by (simp_all add: sample_world_def)
  from transcribeLocalWhisper_keeps_empty_file [OF a b c d(1) d(2)] d(3)
  show ?thesis by simp
qed

section \<open>Package installation: the strategies tried\<close>

lemma strategy_buildInstallArgs [simp]:
  "strategy (py, buildInstallArgs user legacy) = Some (user, legacy)"
  by (auto simp: strategy_def buildInstallArgs_def js_def)

lemma strategy_upgradePipArgs [simp]: "strategy (py, upgradePipArgs w) = None"
  by (auto simp: strategy_def upgradePipArgs_def js_def)

lemma map_filter_append:
  "List.map_filter f (xs @ ys) = List.map_filter f xs @ List.map_filter f ys"
  by (simp add: List.map_filter_def)

lemma strategy_user_upgrade [simp]:
  "strategy (py, [js ''-m'', js ''pip'', js ''install'', js ''--user'', js ''--upgrade'', js ''pip''])
     = None"
  by (simp add: strategy_def js_def)

lemma strategy_legacy_upgrade [simp]:
  "strategy (py, [js ''-m'', js ''pip'', js ''install'', js ''--use-deprecated=legacy-resolver'',
                  js ''--upgrade'', js ''pip''])
     = None"
  by (simp add: strategy_def js_def)

lemma upgradePhase_no_strategy: "strategies (snd (upgradePhase w py)) = []"
  by (simp add: upgradePhase_def runCommand_def strategies_def List.map_filter_simps
      split: sum.splits prod.splits option.splits)

text \<open>Off the Mac the package installs of one run are pairwise different, and the first
  one is the unscoped one. On the Mac the first one is the user-scoped one.\<close>

lemma installPhase_distinct_off_darwin:
  assumes "platform w \<noteq> js ''darwin''" and "strategies l0 = []"
  shows "distinct (strategies (snd (installPhase w py l0)))"
  using assms
  by (auto simp: installPhase_def runCommand_def strategies_def List.map_filter_simps
      map_filter_append Let_def split: sum.splits prod.splits)

lemma installPhase_first_strategy:
  assumes "strategies l0 = []"
  shows "hd (strategies (snd (installPhase w py l0))) = (platform w = js ''darwin'', False)"
  using assms
  by (auto simp: installPhase_def runCommand_def strategies_def List.map_filter_simps
      map_filter_append Let_def split: sum.splits prod.splits)

text \<open>
  C4. A Mac on which the first package install, user-scoped by default, fails with
  "Permission denied": the permission fallback runs the same user-scoped command a second
  time. The commands run are the pip upgrade and twice
  \<open>-m pip install --user -U openai-whisper\<close>.
\<close>

theorem installWhisper_repeats_user_install_on_darwin:
  "platform denied_world = js ''darwin''
   \<and> strategies (snd (snd (installWhisper denied_world ready_manager)))
       = [(True, False), (True, False)]
   \<and> snd (snd (installWhisper denied_world ready_manager))
       = [(js ''python3.11'', upgradePipArgs denied_world),
          (js ''python3.11'', buildInstallArgs True False),
          (js ''python3.11'', buildInstallArgs True False)]
   \<and> fst (installWhisper denied_world ready_manager) = Inr (js ''Successfully installed'')"
proof -
  have p: "platform denied_world = js ''darwin''"
    by (simp add: denied_world_def)
  have f: "findPythonExecutable denied_world ready_manager
             = (Inr (js ''python3.11''), ready_manager, [])"
    by (simp add: findPythonExecutable_def ready_manager_def fresh_manager_def js_def)
  have u: "upgradePhase denied_world (js ''python3.11'')
             = (None, [(js ''python3.11'', upgradePipArgs denied_world)])"
    by (simp add: upgradePhase_def runCommand_def denied_world_def)
  have r: "shouldRetryWithUserInstall denied_world
             (sanitizeErrorMessage
               (js ''ERROR: Could not install packages due to an OSError: [Errno 13] Permission denied''))"
    by code_simp
  have p1: "\<And>args. pip denied_world (Suc 0) args
             = Inl (js ''ERROR: Could not install packages due to an OSError: [Errno 13] Permission denied'')"
    by (simp add: denied_world_def)
  have p2: "\<And>args. pip denied_world (Suc (Suc 0)) args = Inr (js ''Successfully installed'')"
    by (simp add: denied_world_def)
  have i: "installPhase denied_world (js ''python3.11'')
               [(js ''python3.11'', upgradePipArgs denied_world)]
             = (Inr (js ''Successfully installed''),
                [(js ''python3.11'', upgradePipArgs denied_world),
                 (js ''python3.11'', buildInstallArgs True False),
                 (js ''python3.11'', buildInstallArgs True False)])"
    by (simp add: installPhase_def runCommand_def p p1 p2 r)
  have w: "installWhisper denied_world ready_manager
             = (Inr (js ''Successfully installed''), ready_manager,
                [(js ''python3.11'', upgradePipArgs denied_world),
                 (js ''python3.11'', buildInstallArgs True False),
                 (js ''python3.11'', buildInstallArgs True False)])"
    by (simp add: installWhisper_def f u i)
  show ?thesis
    by (simp add: w p strategies_def List.map_filter_simps)
qed

section \<open>Reading the worker's output\<close>

lemma dropWhile_unchanged: "xs = [] \<or> \<not> P (hd xs) \<Longrightarrow> dropWhile P xs = xs"
  by (cases xs) auto

lemma trim_unchanged:
  assumes "t = [] \<or> (\<not> isWhiteSpace (hd t) \<and> \<not> isWhiteSpace (last t))"
  shows "trim t = t"
proof (cases "t = []")
  case True
  then show ?thesis by (simp add: trim_def)
next
  case False
  with assms have h: "\<not> isWhiteSpace (hd t)" and l: "\<not> isWhiteSpace (last t)" by auto
  from h have 1: "dropWhile isWhiteSpace t = t" by (simp add: dropWhile_unchanged)
  from False l have "\<not> isWhiteSpace (hd (rev t))" by (simp add: hd_rev)
  then have 2: "dropWhile isWhiteSpace (rev t) = rev t" by (simp add: dropWhile_unchanged)
  show ?thesis by (simp add: trim_def 1 2)
qed

lemma trim_ends:
  assumes "trim s \<noteq> []"
  shows "\<not> isWhiteSpace (hd (trim s)) \<and> \<not> isWhiteSpace (last (trim s))"
proof -
  let ?a = "dropWhile isWhiteSpace s"
  let ?d = "dropWhile isWhiteSpace (rev ?a)"
  from assms have d: "?d \<noteq> []" by (simp add: trim_def)
  then have a: "?a \<noteq> []" by (metis dropWhile.simps(1) rev.simps(1))
  have "\<not> isWhiteSpace (hd ?d)" using d by (rule hd_dropWhile)
  then have l: "\<not> isWhiteSpace (last (trim s))" using d by (simp add: trim_def last_rev)
  have "rev ?a = takeWhile isWhiteSpace (rev ?a) @ ?d" by simp
  then have "last (rev ?a) = last ?d" using d by (metis last_appendR)
  then have "last ?d = hd ?a" using a by (simp add: last_rev)
  then have "hd (trim s) = hd ?a" using d by (simp add: trim_def hd_rev)
  moreover have "\<not> isWhiteSpace (hd ?a)" using a by (rule hd_dropWhile)
  ultimately show ?thesis using l by simp
qed

lemma trim_trim: "trim (trim s) = trim s"
  using trim_ends [of s] by (intro trim_unchanged) auto

text \<open>A line that starts with a brace parses, if at all, to an object.\<close>

lemma complete_value_in_object:
  assumes "complete_value v st = Some (ph', st')" and "st \<noteq> []" and "object_frame (last st)"
  shows "in_object ph' st'"
  using assms
  by (cases "(v, st)" rule: complete_value.cases) (auto simp: in_object_def split: if_splits)

lemma close_array_in_object:
  assumes "close_array st = Some (ph', st')" and "st \<noteq> []" and "object_frame (last st)"
  shows "in_object ph' st'"
proof (cases st)
  case Nil
  with assms show ?thesis by simp
next
  case (Cons f r)
  show ?thesis
  proof (cases f)
    case (InArray es)
    with Cons assms(3) have r: "r \<noteq> []" "object_frame (last r)" by (cases r; auto)+
    from InArray Cons assms(1) have "complete_value (JArray (rev es)) r = Some (ph', st')" by simp
    then show ?thesis using r by (rule complete_value_in_object)
  qed (use Cons assms in auto)
qed

lemma close_object_in_object:
  assumes "close_object st = Some (ph', st')" and "st \<noteq> []" and "object_frame (last st)"
  shows "in_object ph' st'"
proof (cases st)
  case Nil
  with assms show ?thesis by simp
next
  case (Cons f r)
  show ?thesis
  proof (cases f)
    case (InObject ms)
    with Cons assms(1) have c: "complete_value (JObject (rev ms)) r = Some (ph', st')" by simp
    show ?thesis
    proof (cases "r = []")
      case True
      with c show ?thesis by (auto simp: in_object_def)
    next
      case False
      with Cons assms(3) have "object_frame (last r)" by simp
      with c False show ?thesis by (rule complete_value_in_object)
    qed
  qed (use Cons assms in auto)
qed

lemma start_value_in_object:
  assumes "start_value t st = Some (ph', st')" and "st \<noteq> []" and "object_frame (last st)"
  shows "in_object ph' st'"
proof (cases t)
  case (TScalar v)
  with assms have "complete_value v st = Some (ph', st')" by simp
  then show ?thesis using assms(2,3) by (rule complete_value_in_object)
qed (use assms in \<open>auto simp: in_object_def\<close>)

lemma start_member_in_object:
  assumes "start_member t st = Some (ph', st')" and "st \<noteq> []" and "object_frame (last st)"
  shows "in_object ph' st'"
  using assms
  by (cases "(t, st)" rule: start_member.cases) (auto simp: in_object_def split: if_splits)

lemma after_comma_in_object:
  assumes "after_comma st = Some (ph', st')" and "st \<noteq> []" and "object_frame (last st)"
  shows "in_object ph' st'"
  using assms
  by (cases st rule: after_comma.cases) (auto simp: in_object_def split: if_splits)

lemma json_step_in_object:
  assumes "json_step ph st t = Some (ph', st')" and "in_object ph st"
  shows "in_object ph' st'"
proof (cases "st = []")
  case True
  with assms show ?thesis
    by (cases ph) (auto simp: in_object_def)
next
  case False
  with assms(2) have o: "object_frame (last st)" by (simp add: in_object_def)
  from assms(1) False o show ?thesis
    by (cases ph)
       (auto simp: in_object_def split: if_splits
             intro: start_value_in_object start_member_in_object after_comma_in_object
                    close_array_in_object close_object_in_object
             dest: start_value_in_object start_member_in_object after_comma_in_object
                    close_array_in_object close_object_in_object)
qed

lemma parse_tokens_in_object:
  "parse_tokens ph st ts = Some v \<Longrightarrow> in_object ph st \<Longrightarrow> is_object v"
proof (induction ts arbitrary: ph st)
  case Nil
  then show ?case
    by (cases ph) (auto simp: in_object_def split: if_splits)
next
  case (Cons t ts)
  then show ?case
    by (auto split: option.splits dest: json_step_in_object)
qed

lemma JSON_parse_object:
  assumes "startsWith l (js ''{'')" and "JSON_parse l = Some r"
  shows "is_object r"
proof -
  from assms(1) obtain cs where l: "l = 0x7B # cs"
    by (cases l) (auto simp: startsWith_def js_def)
  with assms(2) obtain ts where "lex cs = Some ts" and
    p: "parse_tokens PValue [] (TLBrace # ts) = Some r"
    by (auto simp: JSON_parse_def json_ws_def split: option.splits)
  from p have "parse_tokens PKeyOrEnd [InObject []] ts = Some r" by simp
  moreover have "in_object PKeyOrEnd [InObject []]" by (simp add: in_object_def)
  ultimately show ?thesis by (rule parse_tokens_in_object)
qed

text \<open>Splitting at line feeds undoes joining with them.\<close>

lemma split_nl_line: "0x0A \<notin> set x \<Longrightarrow> split_nl x = [x]"
  by (induction x) auto

lemma split_nl_append: "0x0A \<notin> set x \<Longrightarrow> split_nl (x @ 0x0A # rest) = x # split_nl rest"
  by (induction x) auto

lemma split_nl_join_nl:
  "ls \<noteq> [] \<Longrightarrow> \<forall>x \<in> set ls. 0x0A \<notin> set x \<Longrightarrow> split_nl (join_nl ls) = ls"
  by (induction ls rule: join_nl.induct) (auto simp: split_nl_line split_nl_append)

lemma isJsonLine_not_empty: "isJsonLine t \<Longrightarrow> t \<noteq> []"
  by (auto simp: isJsonLine_def startsWith_def js_def)

lemma isJsonLine_trim: "isJsonLine t \<Longrightarrow> trim t = t"
proof -
  assume j: "isJsonLine t"
  then obtain c cs where t: "t = c # cs" and "c = 0x7B"
    by (cases t) (auto simp: isJsonLine_def startsWith_def js_def)
  then have h: "\<not> isWhiteSpace (hd t)" by (simp add: isWhiteSpace_def)
  from j t have "drop (length t - 1) t = [0x7D]"
    by (simp add: isJsonLine_def endsWith_def js_def)
  with t have "last t = 0x7D"
    by (metis append_butlast_last_id append_eq_conv_conj diff_Suc_1 last.simps
        length_butlast list.distinct(1) length_Cons)
  then have "\<not> isWhiteSpace (last t)" by (simp add: isWhiteSpace_def)
  with h show ?thesis by (intro trim_unchanged) simp
qed

lemma find_jsonLine_among_noise:
  assumes "\<forall>x \<in> set before. \<not> isJsonLine (trim x)" and "isJsonLine (trim line)"
  shows "find isJsonLine (map trim (filter (\<lambda>l. trim l \<noteq> []) (before @ line # after)))
           = Some (trim line)"
  using assms
  by (induction before) (auto simp: isJsonLine_not_empty)

lemma jsonLines_join_nl:
  assumes "\<forall>x \<in> set before. \<not> isJsonLine (trim x)" and "isJsonLine (trim line)"
    and "\<forall>x \<in> set (before @ line # after). 0x0A \<notin> set x"
  shows "find isJsonLine (jsonLines (join_nl (before @ line # after))) = Some (trim line)"
proof -
  have "split_nl (join_nl (before @ line # after)) = before @ line # after"
    using assms(3) by (intro split_nl_join_nl) auto
  then show ?thesis
    using find_jsonLine_among_noise [OF assms(1,2)] by (simp add: jsonLines_def)
qed

lemma parseWhisperResult_found:
  "find isJsonLine (jsonLines stdout) = Some l \<Longrightarrow>
   parseWhisperResult stdout =
     (case JSON_parse l of None \<Rightarrow> Inl (ParseFailed JsonSyntaxError) | Some r \<Rightarrow> interpretResult r)"
  by (simp add: parseWhisperResult_def)

lemma parseWhisperResult_amid_noise:
  assumes "\<forall>x \<in> set before. \<not> isJsonLine (trim x)" and "isJsonLine (trim line)"
    and "\<forall>x \<in> set (before @ line # after). 0x0A \<notin> set x"
  shows "parseWhisperResult (join_nl (before @ line # after)) = parseWhisperResult line"
proof -
  from assms(3) have "0x0A \<notin> set line" by simp
  then have "jsonLines line = [trim line]"
    using isJsonLine_not_empty [OF assms(2)] by (simp add: jsonLines_def split_nl_line)
  with assms(2) have "find isJsonLine (jsonLines line) = Some (trim line)" by simp
  with jsonLines_join_nl [OF assms] show ?thesis
    by (simp add: parseWhisperResult_found)
qed

lemma interpretResult_throws_iff:
  assumes "is_object r"
  shows "(\<exists>e. interpretResult r = Inl e) \<longleftrightarrow>
         (getprop r (js ''success'') \<noteq> Some (JBool False)
          \<and> (\<exists>t. getprop r (js ''text'') = Some t \<and> truthy t \<and> (\<forall>s. t \<noteq> JString s)))"
proof -
  from assms have "r \<noteq> JNull" by auto
  then show ?thesis
    by (auto simp: interpretResult_def split: option.splits json.splits)
qed

lemma interpretResult_soft:
  assumes "is_object r"
    and "getprop r (js ''success'') = Some (JBool False)
         \<or> getprop r (js ''text'') = None
         \<or> (\<exists>t. getprop r (js ''text'') = Some t \<and> \<not> truthy t)
         \<or> (\<exists>s. getprop r (js ''text'') = Some (JString s) \<and> trim s = [])"
  shows "\<exists>m. interpretResult r = Inr (NoTranscription m)"
proof -
  from assms(1) have "r \<noteq> JNull" by auto
  with assms(2) show ?thesis
    by (auto simp: interpretResult_def split: option.splits json.splits)
qed

lemma interpretResult_transcribed:
  assumes "interpretResult r = Inr (Transcribed text)"
  shows "\<exists>raw. getprop r (js ''text'') = Some (JString raw) \<and> text = trim raw \<and> text \<noteq> []"
  using assms
  by (auto simp: interpretResult_def split: option.splits json.splits if_splits)

lemma trim_js:
  "a \<noteq> [] \<Longrightarrow> \<not> isWhiteSpace (of_nat (of_char (hd a))) \<Longrightarrow>
   \<not> isWhiteSpace (of_nat (of_char (last a))) \<Longrightarrow> trim (js a) = js a"
  by (intro trim_unchanged) (simp add: hd_js last_js)

lemmas json_eval =
  JSON_parse_def js_def json_ws_def isDigit_def startsWith_def lex_number_def lex_int_part_def
  lex_frac_part_def lex_exp_part_def digits_value_def pow10_def unescape_def hex4_def hexVal_def

lemma parseWhisperResult_line:
  assumes "isJsonLine l" and "0x0A \<notin> set l"
  shows "parseWhisperResult l =
     (case JSON_parse l of None \<Rightarrow> Inl (ParseFailed JsonSyntaxError) | Some r \<Rightarrow> interpretResult r)"
proof -
  from assms have "jsonLines l = [l]"
    by (simp add: jsonLines_def split_nl_line isJsonLine_trim isJsonLine_not_empty)
  with assms(1) show ?thesis by (simp add: parseWhisperResult_found)
qed

text \<open>
  C5, as the code has it. \<open>parseWhisperResult\<close> takes the first line that is not blank and
  whose trimmed text starts with \<open>{\<close> and ends with \<open>}\<close>, whether or not it is JSON. It throws
  exactly when there is no such line, or \<open>JSON.parse\<close> rejects that line, or the parsed
  object's \<open>success\<close> is not \<open>false\<close> and its \<open>text\<close> is truthy and not a string. When that
  line parses and \<open>success\<close> is \<open>false\<close>, or \<open>text\<close> is absent, empty or white space only, the
  result is the soft outcome. Lines before and after that line do not change the result,
  provided no line before it is itself brace-delimited.
\<close>

theorem parseWhisperResult_first_brace_line:
  "((\<exists>e. parseWhisperResult stdout = Inl e) \<longleftrightarrow>
      (find isJsonLine (jsonLines stdout) = None
       \<or> (\<exists>l. find isJsonLine (jsonLines stdout) = Some l \<and> JSON_parse l = None)
       \<or> (\<exists>l r t. find isJsonLine (jsonLines stdout) = Some l \<and> JSON_parse l = Some r
            \<and> getprop r (js ''success'') \<noteq> Some (JBool False)
            \<and> getprop r (js ''text'') = Some t \<and> truthy t \<and> (\<forall>s. t \<noteq> JString s))))
   \<and> (find isJsonLine (jsonLines stdout) = Some l \<and> JSON_parse l = Some r
        \<and> (getprop r (js ''success'') = Some (JBool False)
           \<or> getprop r (js ''text'') = None
           \<or> (\<exists>s. getprop r (js ''text'') = Some (JString s) \<and> trim s = []))
      \<longrightarrow> (\<exists>m. parseWhisperResult stdout = Inr (NoTranscription m)))
   \<and> ((\<forall>x \<in> set before. \<not> isJsonLine (trim x)) \<and> isJsonLine (trim line)
        \<and> (\<forall>x \<in> set (before @ line # after). 0x0A \<notin> set x)
      \<longrightarrow> parseWhisperResult (join_nl (before @ line # after)) = parseWhisperResult line)"
proof -
  have obj: "\<And>l r. find isJsonLine (jsonLines stdout) = Some l \<Longrightarrow> JSON_parse l = Some r
               \<Longrightarrow> is_object r"
  proof -
    fix l r
    assume "find isJsonLine (jsonLines stdout) = Some l" and p: "JSON_parse l = Some r"
    then have "isJsonLine l" by (auto simp: find_Some_iff)
    then have "startsWith l (js ''{'')" by (simp add: isJsonLine_def)
    then show "is_object r" using p by (rule JSON_parse_object)
  qed
  have a: "(\<exists>e. parseWhisperResult stdout = Inl e) \<longleftrightarrow>
      (find isJsonLine (jsonLines stdout) = None
       \<or> (\<exists>l. find isJsonLine (jsonLines stdout) = Some l \<and> JSON_parse l = None)
       \<or> (\<exists>l r t. find isJsonLine (jsonLines stdout) = Some l \<and> JSON_parse l = Some r
            \<and> getprop r (js ''success'') \<noteq> Some (JBool False)
            \<and> getprop r (js ''text'') = Some t \<and> truthy t \<and> (\<forall>s. t \<noteq> JString s)))"
  proof (cases "find isJsonLine (jsonLines stdout)")
    case None
    then show ?thesis by (simp add: parseWhisperResult_def)
  next
    case (Some l0)
    show ?thesis
    proof (cases "JSON_parse l0")
      case None
      with Some show ?thesis by (simp add: parseWhisperResult_found)
    next
      case (Some r0)
      from obj [OF \<open>find isJsonLine (jsonLines stdout) = Some l0\<close> Some]
      have "is_object r0" .
      from interpretResult_throws_iff [OF this] Some
        \<open>find isJsonLine (jsonLines stdout) = Some l0\<close>
      show ?thesis by (simp add: parseWhisperResult_found)
    qed
  qed
  have b: "find isJsonLine (jsonLines stdout) = Some l \<and> JSON_parse l = Some r
        \<and> (getprop r (js ''success'') = Some (JBool False)
           \<or> getprop r (js ''text'') = None
           \<or> (\<exists>s. getprop r (js ''text'') = Some (JString s) \<and> trim s = []))
      \<longrightarrow> (\<exists>m. parseWhisperResult stdout = Inr (NoTranscription m))"
  proof
    assume h: "find isJsonLine (jsonLines stdout) = Some l \<and> JSON_parse l = Some r
        \<and> (getprop r (js ''success'') = Some (JBool False)
           \<or> getprop r (js ''text'') = None
           \<or> (\<exists>s. getprop r (js ''text'') = Some (JString s) \<and> trim s = []))"
    then have "is_object r" using obj by blast
    then have "\<exists>m. interpretResult r = Inr (NoTranscription m)"
      using h by (intro interpretResult_soft) auto
    with h show "\<exists>m. parseWhisperResult stdout = Inr (NoTranscription m)"
      by (simp add: parseWhisperResult_found)
  qed
  have c: "(\<forall>x \<in> set before. \<not> isJsonLine (trim x)) \<and> isJsonLine (trim line)
        \<and> (\<forall>x \<in> set (before @ line # after). 0x0A \<notin> set x)
      \<longrightarrow> parseWhisperResult (join_nl (before @ line # after)) = parseWhisperResult line"
    using parseWhisperResult_amid_noise [of before line after] by blast
  from a b c show ?thesis by blast
qed

lemma jsonLines_line:
  assumes "isJsonLine l" and "0x0A \<notin> set l"
  shows "find isJsonLine (jsonLines l) = Some l"
proof -
  from assms have "jsonLines l = [l]"
    by (simp add: jsonLines_def split_nl_line isJsonLine_trim isJsonLine_not_empty)
  with assms(1) show ?thesis by simp
qed

text \<open>A whitespace-only text between two lines of log output.\<close>

theorem parseWhisperResult_first_brace_line_witness:
  \<open>\<not> isJsonLine (trim (js ''Loading model...''))
   \<and> isJsonLine (trim (js ''{"success": true, "text": "   "}''))
   \<and> 0x0A \<notin> set (js ''Loading model...'')
   \<and> 0x0A \<notin> set (js ''{"success": true, "text": "   "}'')
   \<and> 0x0A \<notin> set (js ''Done.'')
   \<and> find isJsonLine (jsonLines (js ''{"success": true, "text": "   "}''))
       = Some (js ''{"success": true, "text": "   "}'')
   \<and> JSON_parse (js ''{"success": true, "text": "   "}'')
       = Some (JObject [(js ''success'', JBool True), (js ''text'', JString (js ''   ''))])
   \<and> getprop (JObject [(js ''success'', JBool True), (js ''text'', JString (js ''   ''))])
         (js ''text'') = Some (JString (js ''   ''))
   \<and> trim (js ''   '') = []
   \<and> (\<exists>m. parseWhisperResult (js ''{"success": true, "text": "   "}'') = Inr (NoTranscription m))
   \<and> parseWhisperResult
         (join_nl [js ''Loading model...'', js ''{"success": true, "text": "   "}'', js ''Done.''])
       = parseWhisperResult (js ''{"success": true, "text": "   "}'')\<close>
proof -
  let ?line = \<open>js ''{"success": true, "text": "   "}''\<close>
  let ?r = "JObject [(js ''success'', JBool True), (js ''text'', JString (js ''   ''))]"
  have t1: "trim (js ''Loading model...'') = js ''Loading model...''"
    by (rule trim_js) (simp_all add: isWhiteSpace_def)
  have n1: "\<not> isJsonLine (trim (js ''Loading model...''))"
    by (simp add: t1 isJsonLine_def)
  have j: "isJsonLine ?line"
    by (simp add: isJsonLine_def)
  then have j': "isJsonLine (trim ?line)"
    by (simp add: isJsonLine_trim)
  have nl: "0x0A \<notin> set (js ''Loading model...'')" "0x0A \<notin> set ?line" "0x0A \<notin> set (js ''Done.'')"
    by (simp_all add: js_def)
  have f: "find isJsonLine (jsonLines ?line) = Some ?line"
    using j nl(2) by (rule jsonLines_line)
  have p: "JSON_parse ?line = Some ?r"
    by (simp add: json_eval)
  have g: "getprop ?r (js ''text'') = Some (JString (js ''   ''))"
    by (simp add: getprop_def)
  have w: "trim (js ''   '') = []"
    by (simp add: trim_def isWhiteSpace_def js_def)
  note inst = parseWhisperResult_first_brace_line
    [of ?line ?line ?r "[js ''Loading model...'']" ?line "[js ''Done.'']"]
  from inst f p g w have soft: "\<exists>m. parseWhisperResult ?line = Inr (NoTranscription m)"
    by blast
  from inst n1 j' nl have same:
    "parseWhisperResult (join_nl ([js ''Loading model...''] @ ?line # [js ''Done.'']))
       = parseWhisperResult ?line"
    by simp
  then have same':
    "parseWhisperResult (join_nl [js ''Loading model...'', ?line, js ''Done.''])
       = parseWhisperResult ?line"
    by simp
  show ?thesis
    by (intro conjI) (rule n1 j' nl f p g w soft same')+
qed

text \<open>
  Against C5 as stated. The second line is a complete JSON object, yet the call throws,
  because the first line is brace-delimited noise: a hard failure with a JSON line
  present, and a noise line that changes the result. And a complete JSON object whose
  \<open>text\<close> is a number throws as well.
\<close>

theorem parseWhisperResult_brace_noise_counterexample:
  \<open>parseWhisperResult (js ''{loading model}\<newline>{"success": true, "text": "hi"}'')
     = Inl (ParseFailed JsonSyntaxError)
   \<and> parseWhisperResult (js ''{"success": true, "text": "hi"}'') = Inr (Transcribed (js ''hi''))
   \<and> JSON_parse (js ''{"success": true, "text": "hi"}'')
       = Some (JObject [(js ''success'', JBool True), (js ''text'', JString (js ''hi''))])
   \<and> parseWhisperResult (js ''{"text": 5}'') = Inl (ParseFailed TypeErrorThrown)
   \<and> JSON_parse (js ''{"text": 5}'') = Some (JObject [(js ''text'', JNumber 5)])\<close>
proof -
  have 1: \<open>parseWhisperResult (js ''{loading model}\<newline>{"success": true, "text": "hi"}'')
     = Inl (ParseFailed JsonSyntaxError)\<close>
    by code_simp
  have 2: \<open>parseWhisperResult (js ''{"success": true, "text": "hi"}'')
     = Inr (Transcribed (js ''hi''))\<close>
    by code_simp
  have 3: \<open>JSON_parse (js ''{"success": true, "text": "hi"}'')
       = Some (JObject [(js ''success'', JBool True), (js ''text'', JString (js ''hi''))])\<close>
    by (simp add: json_eval)
  have 4: \<open>parseWhisperResult (js ''{"text": 5}'') = Inl (ParseFailed TypeErrorThrown)\<close>
    by code_simp
  have 5: \<open>JSON_parse (js ''{"text": 5}'') = Some (JObject [(js ''text'', JNumber 5)])\<close>
    by (simp add: json_eval)
  show ?thesis
    by (intro conjI) (rule 1 2 3 4 5)+
qed

section \<open>The audio argument and the empty buffer\<close>

lemma createTempAudioFile_written:
  assumes "toBuffer w v = Inr b"
    and "\<not> writeFile_fails w (tempAudioPath w)" and "\<not> stat_fails w (tempAudioPath w)"
  shows "createTempAudioFile w fs v
           = (if b = [] then Inl AudioFileEmpty else Inr (tempAudioPath w),
              fs(tempAudioPath w \<mapsto> b))"
  using assms by (simp add: createTempAudioFile_def)

lemma toBuffer_accepts:
  "toBuffer w v =
     (if accepts v then
        (case v of
           ArrayBuffer bs \<Rightarrow> Inr bs
         | Uint8Array bs \<Rightarrow> Inr bs
         | String s \<Rightarrow> Inr (base64_decode w s)
         | _ \<Rightarrow> Buffer_from w (buffer_of v))
      else Inl UnsupportedAudioType)"
  by (cases v) (auto simp: toBuffer_def accepts_def)

text \<open>
  C6, as the code has it. \<open>createTempAudioFile\<close> turns an \<open>ArrayBuffer\<close>, a \<open>Uint8Array\<close>, any
  string (as base64) and any other truthy value whose \<open>buffer\<close> is truthy (through
  \<open>Buffer.from\<close>) into a buffer, and rejects every other value with the unsupported-input
  error. When the write and the \<open>stat\<close> succeed, the file holds the buffer and the call
  fails with "Audio file is empty" exactly when the buffer has no bytes. In
  \<open>transcribeLocalWhisper\<close> a zero-byte buffer fails so once the decoder check has passed,
  and the commands run are those of that check and no other: the worker is not spawned.
\<close>

theorem createTempAudioFile_accepts_and_checks:
  "(\<not> accepts v \<longrightarrow> createTempAudioFile w fs v = (Inl UnsupportedAudioType, fs))
   \<and> (accepts v \<longrightarrow>
        toBuffer w v =
          (case v of
             ArrayBuffer bs \<Rightarrow> Inr bs
           | Uint8Array bs \<Rightarrow> Inr bs
           | String s \<Rightarrow> Inr (base64_decode w s)
           | _ \<Rightarrow> Buffer_from w (buffer_of v)))
   \<and> (toBuffer w v = Inr b \<and> \<not> writeFile_fails w (tempAudioPath w)
        \<and> \<not> stat_fails w (tempAudioPath w) \<longrightarrow>
        createTempAudioFile w fs v
          = (if b = [] then Inl AudioFileEmpty else Inr (tempAudioPath w),
             fs(tempAudioPath w \<mapsto> b)))
   \<and> ((v = ArrayBuffer [] \<or> v = Uint8Array [])
        \<and> checkFFmpegAvailability w m = (a, m1, l1) \<and> available a = Inr True
        \<and> \<not> writeFile_fails w (tempAudioPath w) \<and> \<not> stat_fails w (tempAudioPath w) \<longrightarrow>
        transcribeLocalWhisper w m fs v opts
          = (Some (Inl AudioFileEmpty), m1, fs(tempAudioPath w \<mapsto> []), l1))"
proof -
  have 1: "\<not> accepts v \<longrightarrow> createTempAudioFile w fs v = (Inl UnsupportedAudioType, fs)"
    by (simp add: createTempAudioFile_def toBuffer_accepts)
  have 2: "accepts v \<longrightarrow>
        toBuffer w v =
          (case v of
             ArrayBuffer bs \<Rightarrow> Inr bs
           | Uint8Array bs \<Rightarrow> Inr bs
           | String s \<Rightarrow> Inr (base64_decode w s)
           | _ \<Rightarrow> Buffer_from w (buffer_of v))"
    by (simp add: toBuffer_accepts)
  have 3: "toBuffer w v = Inr b \<and> \<not> writeFile_fails w (tempAudioPath w)
        \<and> \<not> stat_fails w (tempAudioPath w) \<longrightarrow>
        createTempAudioFile w fs v
          = (if b = [] then Inl AudioFileEmpty else Inr (tempAudioPath w),
             fs(tempAudioPath w \<mapsto> b))"
    using createTempAudioFile_written [of w v b fs] by blast
  have 4: "(v = ArrayBuffer [] \<or> v = Uint8Array [])
        \<and> checkFFmpegAvailability w m = (a, m1, l1) \<and> available a = Inr True
        \<and> \<not> writeFile_fails w (tempAudioPath w) \<and> \<not> stat_fails w (tempAudioPath w) \<longrightarrow>
        transcribeLocalWhisper w m fs v opts
          = (Some (Inl AudioFileEmpty), m1, fs(tempAudioPath w \<mapsto> []), l1)"
  proof
    assume h: "(v = ArrayBuffer [] \<or> v = Uint8Array [])
        \<and> checkFFmpegAvailability w m = (a, m1, l1) \<and> available a = Inr True
        \<and> \<not> writeFile_fails w (tempAudioPath w) \<and> \<not> stat_fails w (tempAudioPath w)"
    then have "toBuffer w v = Inr []" by (auto simp: toBuffer_def)
    with h show "transcribeLocalWhisper w m fs v opts
          = (Some (Inl AudioFileEmpty), m1, fs(tempAudioPath w \<mapsto> []), l1)"
      by (simp add: transcribeLocalWhisper_def createTempAudioFile_def)
  qed
  from 1 2 3 4 show ?thesis by blast
qed

lemma sample_world_script:
  "getWhisperScriptPath sample_world m
     = (if mlx m then Inr (js ''/opt/app/resources/app.asar.unpacked/whisper_bridge_mlx_official.py'')
        else Inr (js ''/opt/app/resources/app.asar.unpacked/whisper_bridge.py''))"
  by (simp add: getWhisperScriptPath_def development_def sample_world_def)

lemma sample_world_decoder:
  "bundledFFmpeg sample_world
     = Inr (js ''/opt/app/resources/app.asar.unpacked/node_modules/ffmpeg-static/ffmpeg'')"
  by (simp add: bundledFFmpeg_def primaryFFmpegPath_def development_def truthy_str_def or_else_def
      binaryName_def existsSync_def sample_world_def)

lemma sample_world_check:
  \<open>ffmpegCheckResult (ffmpeg_check_child sample_world c)
     = Inr (CheckResult (JObject [(js ''available'', JBool True)]))\<close>
proof -
  have \<open>JSON_parse (js ''{"available": true}'')
          = Some (JObject [(js ''available'', JBool True)])\<close>
    by (simp add: JSON_parse_def js_def json_ws_def isDigit_def startsWith_def)
  then show ?thesis
    by (simp add: ffmpegCheckResult_def sample_world_def)
qed

text \<open>The first call after a cold start: the interpreter is probed twice and the decoder
  check is spawned before the empty buffer is found.\<close>

lemma checkFFmpegAvailability_sample_world:
  "checkFFmpegAvailability sample_world fresh_manager
     = (CheckResult (JObject [(js ''available'', JBool True)]),
        fresh_manager
          \<lparr>pythonCmd := Some (js ''python3.11''),
           cachedFFmpegPath :=
             Some (js ''/opt/app/resources/app.asar.unpacked/node_modules/ffmpeg-static/ffmpeg''),
           cachedFFmpegAvailability := CheckResult (JObject [(js ''available'', JBool True)])\<rparr>,
        [version_cmd (js ''python3.12''), version_cmd (js ''python3.11''),
         (js ''python3.11'',
          [js ''/opt/app/resources/app.asar.unpacked/whisper_bridge.py'', js ''--mode'',
           js ''check-ffmpeg''])])"
proof -
  have f: "findPythonExecutable sample_world fresh_manager
     = (Inr (js ''python3.11''), fresh_manager\<lparr>pythonCmd := Some (js ''python3.11'')\<rparr>,
        [version_cmd (js ''python3.12''), version_cmd (js ''python3.11'')])"
    by (simp add: findPythonExecutable_def searchPython_sample_world fresh_manager_def)
  have s: "getWhisperScriptPath sample_world (fresh_manager\<lparr>pythonCmd := Some (js ''python3.11'')\<rparr>)
     = Inr (js ''/opt/app/resources/app.asar.unpacked/whisper_bridge.py'')"
    by (simp add: sample_world_script fresh_manager_def)
  have g: "getFFmpegPath sample_world (fresh_manager\<lparr>pythonCmd := Some (js ''python3.11'')\<rparr>)
     = (js ''/opt/app/resources/app.asar.unpacked/node_modules/ffmpeg-static/ffmpeg'',
        fresh_manager
          \<lparr>pythonCmd := Some (js ''python3.11''),
           cachedFFmpegPath :=
             Some (js ''/opt/app/resources/app.asar.unpacked/node_modules/ffmpeg-static/ffmpeg'')\<rparr>,
        [])"
    by (simp add: getFFmpegPath_def sample_world_decoder truthy_str_def fresh_manager_def)
  have n: "cachedFFmpegAvailability fresh_manager = NotChecked"
    by (simp add: fresh_manager_def)
  show ?thesis
    by (simp add: checkFFmpegAvailability_def n f s g sample_world_check Let_def)
qed

text \<open>A zero-byte \<open>Uint8Array\<close> after start-up, and an object without a buffer.\<close>

theorem createTempAudioFile_accepts_and_checks_witness:
  "\<not> accepts (Object [(js ''size'', Number 3)])
   \<and> createTempAudioFile sample_world Map.empty (Object [(js ''size'', Number 3)])
       = (Inl UnsupportedAudioType, Map.empty)
   \<and> accepts (Uint8Array [])
   \<and> toBuffer sample_world (Uint8Array []) = Inr []
   \<and> \<not> writeFile_fails sample_world (tempAudioPath sample_world)
   \<and> \<not> stat_fails sample_world (tempAudioPath sample_world)
   \<and> createTempAudioFile sample_world Map.empty (Uint8Array [])
       = (Inl AudioFileEmpty, [tempAudioPath sample_world \<mapsto> []])
   \<and> checkFFmpegAvailability sample_world ready_manager
       = (CheckResult (JObject [(js ''available'', JBool True)]), ready_manager, [])
   \<and> available (CheckResult (JObject [(js ''available'', JBool True)])) = Inr True
   \<and> transcribeLocalWhisper sample_world ready_manager Map.empty (Uint8Array []) no_options
       = (Some (Inl AudioFileEmpty), ready_manager, [tempAudioPath sample_world \<mapsto> []], [])"
proof -
  note inst = createTempAudioFile_accepts_and_checks
    [of _ sample_world Map.empty _ ready_manager
        "CheckResult (JObject [(js ''available'', JBool True)])" ready_manager "[]" no_options]
  have na: "\<not> accepts (Object [(js ''size'', Number 3)])"
    by (simp add: accepts_def buffer_of_def or_else_def)
  have ac: "accepts (Uint8Array [])"
    by (simp add: accepts_def)
  have wf: "\<not> writeFile_fails sample_world (tempAudioPath sample_world)"
           "\<not> stat_fails sample_world (tempAudioPath sample_world)"
    by (simp_all add: sample_world_def)
  have ch: "checkFFmpegAvailability sample_world ready_manager
       = (CheckResult (JObject [(js ''available'', JBool True)]), ready_manager, [])"
    by (simp add: checkFFmpegAvailability_def ready_manager_def fresh_manager_def)
  have av: "available (CheckResult (JObject [(js ''available'', JBool True)])) = Inr True"
    by (simp add: available_def getprop_def)
  from inst [of "Object [(js ''size'', Number 3)]" "[]"] na
  have 1: "createTempAudioFile sample_world Map.empty (Object [(js ''size'', Number 3)])
       = (Inl UnsupportedAudioType, Map.empty)"
    by blast
  from inst [of "Uint8Array []" "[]"] ac
  have 2: "toBuffer sample_world (Uint8Array []) = Inr []"
    by simp
  from inst [of "Uint8Array []" "[]"] 2 wf
  have 3: "createTempAudioFile sample_world Map.empty (Uint8Array [])
       = (Inl AudioFileEmpty, [tempAudioPath sample_world \<mapsto> []])"
    by simp
  from inst [of "Uint8Array []" "[]"] ch av wf
  have 4: "transcribeLocalWhisper sample_world ready_manager Map.empty (Uint8Array []) no_options
       = (Some (Inl AudioFileEmpty), ready_manager, [tempAudioPath sample_world \<mapsto> []], [])"
    by simp
  show ?thesis
    by (intro conjI) (rule na 1 ac 2 wf 3 ch av 4)+
qed

text \<open>
  Against C6 as stated. On the first call after a cold start with a zero-byte buffer, three
  processes have been spawned (two interpreter probes and the decoder check) before the
  call fails with "Audio file is empty".
\<close>

theorem transcribeLocalWhisper_spawns_before_empty_audio_counterexample:
  "transcribeLocalWhisper sample_world fresh_manager Map.empty (Uint8Array []) no_options
     = (Some (Inl AudioFileEmpty),
        fresh_manager
          \<lparr>pythonCmd := Some (js ''python3.11''),
           cachedFFmpegPath :=
             Some (js ''/opt/app/resources/app.asar.unpacked/node_modules/ffmpeg-static/ffmpeg''),
           cachedFFmpegAvailability := CheckResult (JObject [(js ''available'', JBool True)])\<rparr>,
        [tempAudioPath sample_world \<mapsto> []],
        [(js ''python3.12'', [js ''--version'']), (js ''python3.11'', [js ''--version'']),
         (js ''python3.11'',
          [js ''/opt/app/resources/app.asar.unpacked/whisper_bridge.py'', js ''--mode'',
           js ''check-ffmpeg''])])"
proof -
  have av: "available (CheckResult (JObject [(js ''available'', JBool True)])) = Inr True"
    by (simp add: available_def getprop_def)
  have wf: "\<not> writeFile_fails sample_world (tempAudioPath sample_world)"
           "\<not> stat_fails sample_world (tempAudioPath sample_world)"
    by (simp_all add: sample_world_def)
  have b: "toBuffer sample_world (Uint8Array []) = Inr []"
    by (simp add: toBuffer_def)
  from transcribeLocalWhisper_keeps_empty_file
         [OF checkFFmpegAvailability_sample_world av b wf]
  show ?thesis
    by (simp add: version_cmd_def)
qed

section \<open>Cancelling a download\<close>

text \<open>Once SIGTERM has been delivered, \<open>killed\<close> is set, and the callback of the grace timer
  sends nothing more, whether or not the child has ended.\<close>

lemma cancel_then_grace_sends_only_SIGTERM:
  assumes "currentDownloadProcess m = Some p" and "running (ch p)"
  shows "snd (cancelGrace (m, fst (snd (cancelDownload (m, ch))))) p
           = (ch p)\<lparr>killed := True, received := received (ch p) @ [SIGTERM]\<rparr>"
  using assms by (simp add: cancelDownload_def cancelGrace_def kill_def)

lemma cancelDownload_without_handle:
  "currentDownloadProcess m = None \<Longrightarrow>
   cancelDownload (m, ch) = (CancelFailed (js ''No active download to cancel''), ch, False)"
  by (simp add: cancelDownload_def)

text \<open>
  C7. A download is running and \<open>cancelDownload\<close> is called: it answers success and the
  child receives SIGTERM. The child does not end within the grace window. The timer's
  callback then finds \<open>killed\<close> set and sends no SIGKILL: the child is still running and
  has received SIGTERM only. With no download, \<open>cancelDownload\<close> returns the failure
  object.
\<close>

theorem cancelDownload_never_escalates:
  "fst (cancelDownload (drun [Spawn 1] no_download)) = Cancelled
   \<and> snd (drun [Spawn 1, CancelCalled, CancelGraceFires] no_download) 1
       = \<lparr>killed = True, running = True, received = [SIGTERM]\<rparr>
   \<and> cancelDownload no_download
       = (CancelFailed (js ''No active download to cancel''), snd no_download, False)"
  by (simp add: drun_def cancelDownload_def cancelGrace_def kill_def fresh_manager_def
      no_child_def no_download_def)

section \<open>Decoder path: a path on every configuration, cached\<close>

lemma binaryName_not_empty: "binaryName w \<noteq> []"
  by (simp add: binaryName_def js_def)

lemma bundledFFmpeg_verified:
  "bundledFFmpeg w = Inr q \<Longrightarrow> existsSync w q \<and> fs_executable w q"
  by (auto simp: bundledFFmpeg_def Let_def split: sum.splits option.splits if_splits)

lemma getFFmpegPath_uncached:
  "\<not> truthy_str (cachedFFmpegPath m) \<Longrightarrow>
   getFFmpegPath w m =
     (case bundledFFmpeg w of
        Inr q \<Rightarrow> (q, m\<lparr>cachedFFmpegPath := Some q\<rparr>, [])
      | Inl e \<Rightarrow> (binaryName w, m\<lparr>cachedFFmpegPath := Some (binaryName w)\<rparr>,
                  [(binaryName w, [js ''--version''])]))"
  by (simp add: getFFmpegPath_def split: sum.splits)

lemma getFFmpegPath_cached:
  "truthy_str (cachedFFmpegPath m) \<Longrightarrow> getFFmpegPath w m = (or_else [] (cachedFFmpegPath m), m, [])"
  by (simp add: getFFmpegPath_def)

lemma getFFmpegPath_result:
  "fst (getFFmpegPath w m) \<noteq> []
   \<and> cachedFFmpegPath (fst (snd (getFFmpegPath w m))) = Some (fst (getFFmpegPath w m))"
proof (cases "truthy_str (cachedFFmpegPath m)")
  case True
  then show ?thesis
    by (auto simp: getFFmpegPath_cached truthy_str_def or_else_def split: option.splits)
next
  case False
  show ?thesis
  proof (cases "bundledFFmpeg w")
    case (Inl e)
    with False show ?thesis
      by (simp add: getFFmpegPath_uncached binaryName_not_empty)
  next
    case (Inr q)
    with bundledFFmpeg_verified [OF Inr] False show ?thesis
      by (auto simp: getFFmpegPath_uncached existsSync_def)
  qed
qed

text \<open>
  C8. \<open>getFFmpegPath\<close> has no failing outcome: every throw of its \<open>try\<close> is caught. On every
  world and manager it returns a non-empty path and stores it; any later call, in whatever
  world, returns that same path, leaves the manager as it is and runs nothing. With an
  empty cache: when the bundled lookup throws (the binary is absent, or present but not
  executable, or the module gives no path) the result is the system binary's name, whether
  or not \<open>--version\<close> ran; when it succeeds the result exists and is executable.
\<close>

theorem getFFmpegPath_never_fails_and_caches:
  "fst (getFFmpegPath w m) \<noteq> []
   \<and> cachedFFmpegPath (fst (snd (getFFmpegPath w m))) = Some (fst (getFFmpegPath w m))
   \<and> getFFmpegPath w' (fst (snd (getFFmpegPath w m)))
       = (fst (getFFmpegPath w m), fst (snd (getFFmpegPath w m)), [])
   \<and> (\<not> truthy_str (cachedFFmpegPath m) \<longrightarrow>
        (\<forall>e. bundledFFmpeg w = Inl e \<longrightarrow> fst (getFFmpegPath w m) = binaryName w))
   \<and> (\<not> truthy_str (cachedFFmpegPath m) \<longrightarrow>
        (\<forall>q. bundledFFmpeg w = Inr q \<longrightarrow>
           fst (getFFmpegPath w m) = q \<and> existsSync w q \<and> fs_executable w q))"
proof -
  let ?p = "fst (getFFmpegPath w m)" and ?m1 = "fst (snd (getFFmpegPath w m))"
  from getFFmpegPath_result [of w m] have ne: "?p \<noteq> []" and st: "cachedFFmpegPath ?m1 = Some ?p"
    by simp_all
  then have "truthy_str (cachedFFmpegPath ?m1)" by (simp add: truthy_str_def)
  from getFFmpegPath_cached [OF this, of w'] st
  have again: "getFFmpegPath w' ?m1 = (?p, ?m1, [])" by (simp add: or_else_def)
  have sys: "\<not> truthy_str (cachedFFmpegPath m) \<longrightarrow>
        (\<forall>e. bundledFFmpeg w = Inl e \<longrightarrow> ?p = binaryName w)"
    by (simp add: getFFmpegPath_uncached)
  have bun: "\<not> truthy_str (cachedFFmpegPath m) \<longrightarrow>
        (\<forall>q. bundledFFmpeg w = Inr q \<longrightarrow> ?p = q \<and> existsSync w q \<and> fs_executable w q)"
    using bundledFFmpeg_verified [of w] by (simp add: getFFmpegPath_uncached)
  from ne st again sys bun show ?thesis by blast
qed

lemmas sample_decoder =
  bundledFFmpeg_def primaryFFmpegPath_def development_def truthy_str_def or_else_def binaryName_def
  existsSync_def sample_world_def

text \<open>The three configurations: the bundled binary present, present but not executable,
  and absent.\<close>

theorem getFFmpegPath_never_fails_and_caches_witness:
  "\<not> truthy_str (cachedFFmpegPath fresh_manager)
   \<and> bundledFFmpeg sample_world
       = Inr (js ''/opt/app/resources/app.asar.unpacked/node_modules/ffmpeg-static/ffmpeg'')
   \<and> fst (getFFmpegPath sample_world fresh_manager)
       = js ''/opt/app/resources/app.asar.unpacked/node_modules/ffmpeg-static/ffmpeg''
   \<and> bundledFFmpeg (sample_world\<lparr>fs_executable := \<lambda>p. False\<rparr>)
       = Inl (FFmpegNotExecutable
               (js ''/opt/app/resources/app.asar.unpacked/node_modules/ffmpeg-static/ffmpeg''))
   \<and> fst (getFFmpegPath (sample_world\<lparr>fs_executable := \<lambda>p. False\<rparr>) fresh_manager) = js ''ffmpeg''
   \<and> bundledFFmpeg (sample_world\<lparr>fs_exists := \<lambda>p. False\<rparr>)
       = Inl (BundledFFmpegNotFound
               (js ''/opt/app/resources/app.asar.unpacked/node_modules/ffmpeg-static/ffmpeg''))
   \<and> fst (getFFmpegPath (sample_world\<lparr>fs_exists := \<lambda>p. False\<rparr>) fresh_manager) = js ''ffmpeg''"
proof -
  have c: "\<not> truthy_str (cachedFFmpegPath fresh_manager)"
    by (simp add: fresh_manager_def truthy_str_def)
  have b1: "bundledFFmpeg sample_world
       = Inr (js ''/opt/app/resources/app.asar.unpacked/node_modules/ffmpeg-static/ffmpeg'')"
    by (simp add: sample_decoder)
  have b2: "bundledFFmpeg (sample_world\<lparr>fs_executable := \<lambda>p. False\<rparr>)
       = Inl (FFmpegNotExecutable
               (js ''/opt/app/resources/app.asar.unpacked/node_modules/ffmpeg-static/ffmpeg''))"
    by (simp add: sample_decoder)
  have b3: "bundledFFmpeg (sample_world\<lparr>fs_exists := \<lambda>p. False\<rparr>)
       = Inl (BundledFFmpegNotFound
               (js ''/opt/app/resources/app.asar.unpacked/node_modules/ffmpeg-static/ffmpeg''))"
    by (simp add: sample_decoder)
  have n2: "binaryName (sample_world\<lparr>fs_executable := \<lambda>p. False\<rparr>) = js ''ffmpeg''"
    by (simp add: binaryName_def sample_world_def)
  have n3: "binaryName (sample_world\<lparr>fs_exists := \<lambda>p. False\<rparr>) = js ''ffmpeg''"
    by (simp add: binaryName_def sample_world_def)
  note bundled = getFFmpegPath_never_fails_and_caches
    [THEN conjunct2, THEN conjunct2, THEN conjunct2, THEN conjunct2, rule_format, THEN conjunct1]
  note system = getFFmpegPath_never_fails_and_caches
    [THEN conjunct2, THEN conjunct2, THEN conjunct2, THEN conjunct1, rule_format]
  have r1: "fst (getFFmpegPath sample_world fresh_manager)
       = js ''/opt/app/resources/app.asar.unpacked/node_modules/ffmpeg-static/ffmpeg''"
    by (rule bundled [OF c b1])
  have r2: "fst (getFFmpegPath (sample_world\<lparr>fs_executable := \<lambda>p. False\<rparr>) fresh_manager)
       = js ''ffmpeg''"
    using system [OF c b2] by (simp only: n2)
  have r3: "fst (getFFmpegPath (sample_world\<lparr>fs_exists := \<lambda>p. False\<rparr>) fresh_manager)
       = js ''ffmpeg''"
    using system [OF c b3] by (simp only: n3)
  show ?thesis
    by (intro conjI) (rule c b1 r1 b2 r2 b3 r3)+
qed

section \<open>Successful transcriptions carry trimmed, non-empty text\<close>

text \<open>
  C9. Whenever \<open>parseWhisperResult\<close> returns a success, its text is the \<open>text\<close> field of the
  object parsed from the first brace-delimited line, which is a string, trimmed; it is not
  empty, and trimming it again changes nothing: it neither starts nor ends with white space.
\<close>

theorem parseWhisperResult_success_is_trimmed_text:
  "parseWhisperResult stdout = Inr (Transcribed text) \<Longrightarrow>
     text \<noteq> [] \<and> trim text = text
     \<and> \<not> isWhiteSpace (hd text) \<and> \<not> isWhiteSpace (last text)
     \<and> (\<exists>l r raw. find isJsonLine (jsonLines stdout) = Some l \<and> JSON_parse l = Some r
          \<and> getprop r (js ''text'') = Some (JString raw) \<and> text = trim raw)"
proof -
  assume a: "parseWhisperResult stdout = Inr (Transcribed text)"
  then obtain l r where l: "find isJsonLine (jsonLines stdout) = Some l"
    and r: "JSON_parse l = Some r" and i: "interpretResult r = Inr (Transcribed text)"
    by (auto simp: parseWhisperResult_def split: option.splits)
  from interpretResult_transcribed [OF i] obtain raw where
    raw: "getprop r (js ''text'') = Some (JString raw)" "text = trim raw" "text \<noteq> []"
    by blast
  from raw(2) have "trim text = text" by (simp add: trim_trim)
  moreover from raw(2,3) trim_ends [of raw]
  have "\<not> isWhiteSpace (hd text) \<and> \<not> isWhiteSpace (last text)" by simp
  ultimately show ?thesis using l r raw by blast
qed

theorem parseWhisperResult_success_is_trimmed_text_witness:
  \<open>parseWhisperResult (js ''{"success": true, "text": " hello "}'') = Inr (Transcribed (js ''hello''))
   \<and> js ''hello'' \<noteq> [] \<and> trim (js ''hello'') = js ''hello''
   \<and> \<not> isWhiteSpace (hd (js ''hello'')) \<and> \<not> isWhiteSpace (last (js ''hello''))\<close>
proof -
  have p: \<open>parseWhisperResult (js ''{"success": true, "text": " hello "}'')
     = Inr (Transcribed (js ''hello''))\<close>
    by code_simp
  from parseWhisperResult_success_is_trimmed_text [OF p] p show ?thesis
    by blast
qed

section \<open>Model download: the handle after the download has ended\<close>

text \<open>The handle, when set, names the child spawned last, and that child has emitted neither
  \<open>close\<close> nor \<open>error\<close>.\<close>

lemma handle_not_ended:
  "wellformed sp evs \<Longrightarrow>
   currentDownloadProcess (fst (drun evs (m, ch))) = Some q \<Longrightarrow>
   (currentDownloadProcess m = Some q \<and> ended evs = []) \<or> (q \<notin> set sp \<and> q \<notin> set (ended evs))"
proof (induction evs arbitrary: m ch sp)
  case Nil
  then show ?case by (simp add: drun_def)
next
  case (Cons ev evs)
  obtain m' ch' where step: "dstep ev (m, ch) = (m', ch')" by (cases "dstep ev (m, ch)")
  then have run: "drun (ev # evs) (m, ch) = drun evs (m', ch')" by (simp add: drun_def)
  show ?case
  proof (cases ev)
    case (Spawn p)
    with Cons.prems(1) have wf: "p \<notin> set sp" "wellformed (p # sp) evs" by simp_all
    from Spawn step have "currentDownloadProcess m' = Some p" by auto
    with Cons.IH [OF wf(2), of m' ch'] Cons.prems(2) run wf(1) Spawn show ?thesis by auto
  next
    case (CloseEvent p code)
    with Cons.prems(1) have wf: "p \<in> set sp" "wellformed sp evs" by simp_all
    from CloseEvent step have "currentDownloadProcess m' = None" by auto
    with Cons.IH [OF wf(2), of m' ch'] Cons.prems(2) run wf(1) CloseEvent show ?thesis by auto
  next
    case (ErrorEmitted p)
    with Cons.prems(1) have wf: "p \<in> set sp" "wellformed sp evs" by simp_all
    from ErrorEmitted step have "currentDownloadProcess m' = None" by auto
    with Cons.IH [OF wf(2), of m' ch'] Cons.prems(2) run wf(1) ErrorEmitted show ?thesis by auto
  next
    case (ChildExit p)
    with Cons.prems(1) have wf: "wellformed sp evs" by simp
    from ChildExit step have "currentDownloadProcess m' = currentDownloadProcess m" by auto
    with Cons.IH [OF wf, of m' ch'] Cons.prems(2) run ChildExit show ?thesis by auto
  next
    case (DownloadTimeout p)
    with Cons.prems(1) have wf: "wellformed sp evs" by simp
    from DownloadTimeout step have "currentDownloadProcess m' = currentDownloadProcess m" by auto
    with Cons.IH [OF wf, of m' ch'] Cons.prems(2) run DownloadTimeout show ?thesis by auto
  next
    case (TimeoutGrace p)
    with Cons.prems(1) have wf: "wellformed sp evs" by simp
    from TimeoutGrace step have "currentDownloadProcess m' = currentDownloadProcess m"
      by (auto split: if_splits)
    with Cons.IH [OF wf, of m' ch'] Cons.prems(2) run TimeoutGrace show ?thesis by auto
  next
    case CancelCalled
    with Cons.prems(1) have wf: "wellformed sp evs" by simp
    from CancelCalled step have "currentDownloadProcess m' = currentDownloadProcess m" by auto
    with Cons.IH [OF wf, of m' ch'] Cons.prems(2) run CancelCalled show ?thesis by auto
  next
    case CancelGraceFires
    with Cons.prems(1) have wf: "wellformed sp evs" by simp
    from CancelGraceFires step have "currentDownloadProcess m' = currentDownloadProcess m"
      by (auto simp: cancelGrace_def split: option.splits if_splits)
    with Cons.IH [OF wf, of m' ch'] Cons.prems(2) run CancelGraceFires show ?thesis by auto
  qed
qed

lemma drun_snoc: "drun (evs @ [ev]) s = dstep ev (drun evs s)"
  by (simp add: drun_def)

text \<open>
  C10. Both the \<open>close\<close> and the \<open>error\<close> handler of a download clear the tracked handle,
  whatever the state and the exit code. So in any history of spawns, exits, events, timers
  and cancellations that ends with a \<open>close\<close> or an \<open>error\<close> event, a call of
  \<open>cancelDownload\<close> returns the no-active-download failure, sets no timer and signals no
  child. And in every well-formed history that starts with no handle, \<open>cancelDownload\<close> and
  its grace timer leave every child that has emitted \<open>close\<close> or \<open>error\<close> untouched.
\<close>

theorem handle_cleared_when_download_ends:
  "currentDownloadProcess (fst (dstep (CloseEvent p code) s)) = None
   \<and> currentDownloadProcess (fst (dstep (ErrorEmitted p) s)) = None
   \<and> cancelDownload (drun (evs @ [CloseEvent p code]) s)
       = (CancelFailed (js ''No active download to cancel''),
          snd (drun (evs @ [CloseEvent p code]) s), False)
   \<and> cancelDownload (drun (evs @ [ErrorEmitted p]) s)
       = (CancelFailed (js ''No active download to cancel''),
          snd (drun (evs @ [ErrorEmitted p]) s), False)
   \<and> (wellformed [] evs \<and> currentDownloadProcess (fst s) = None \<longrightarrow>
        (\<forall>q \<in> set (ended evs).
           fst (snd (cancelDownload (drun evs s))) q = snd (drun evs s) q
           \<and> snd (cancelGrace (drun evs s)) q = snd (drun evs s) q))"
proof -
  obtain m ch where s: "s = (m, ch)" by (cases s)
  have 1: "currentDownloadProcess (fst (dstep (CloseEvent p code) s)) = None"
    by (simp add: s)
  have 2: "currentDownloadProcess (fst (dstep (ErrorEmitted p) s)) = None"
    by (simp add: s)
  have 3: "cancelDownload (drun (evs @ [CloseEvent p code]) s)
       = (CancelFailed (js ''No active download to cancel''),
          snd (drun (evs @ [CloseEvent p code]) s), False)"
    by (cases "drun evs s") (simp add: drun_snoc cancelDownload_def)
  have 4: "cancelDownload (drun (evs @ [ErrorEmitted p]) s)
       = (CancelFailed (js ''No active download to cancel''),
          snd (drun (evs @ [ErrorEmitted p]) s), False)"
    by (cases "drun evs s") (simp add: drun_snoc cancelDownload_def)
  have 5: "wellformed [] evs \<and> currentDownloadProcess (fst s) = None \<longrightarrow>
        (\<forall>q \<in> set (ended evs).
           fst (snd (cancelDownload (drun evs s))) q = snd (drun evs s) q
           \<and> snd (cancelGrace (drun evs s)) q = snd (drun evs s) q)"
  proof (intro impI ballI)
    fix q
    assume a: "wellformed [] evs \<and> currentDownloadProcess (fst s) = None"
      and q: "q \<in> set (ended evs)"
    show "fst (snd (cancelDownload (drun evs s))) q = snd (drun evs s) q
           \<and> snd (cancelGrace (drun evs s)) q = snd (drun evs s) q"
    proof (cases "currentDownloadProcess (fst (drun evs s))")
      case None
      then show ?thesis by (simp add: cancelDownload_def cancelGrace_def)
    next
      case (Some h)
      with handle_not_ended [of "[]" evs m ch h] a s have "h \<notin> set (ended evs)" by auto
      with q have "h \<noteq> q" by auto
      with Some show ?thesis by (simp add: cancelDownload_def cancelGrace_def)
    qed
  qed
  from 1 2 3 4 5 show ?thesis by blast
qed

text \<open>A download that is cancelled and then closes, and a second one that fails to start.\<close>

theorem handle_cleared_when_download_ends_witness:
  "wellformed [] [Spawn 1, CancelCalled, ChildExit 1, CloseEvent 1 None, Spawn 2, ErrorEmitted 2]
   \<and> currentDownloadProcess (fst no_download) = None
   \<and> ended [Spawn 1, CancelCalled, ChildExit 1, CloseEvent 1 None, Spawn 2, ErrorEmitted 2] = [1, 2]
   \<and> cancelDownload
        (drun [Spawn 1, CancelCalled, ChildExit 1, CloseEvent 1 None, Spawn 2, ErrorEmitted 2]
           no_download)
       = (CancelFailed (js ''No active download to cancel''),
          snd (drun [Spawn 1, CancelCalled, ChildExit 1, CloseEvent 1 None, Spawn 2, ErrorEmitted 2]
                 no_download),
          False)
   \<and> snd (drun [Spawn 1, CancelCalled, ChildExit 1, CloseEvent 1 None, Spawn 2, ErrorEmitted 2]
             no_download) 1
       = \<lparr>killed = True, running = False, received = [SIGTERM]\<rparr>
   \<and> fst (snd (cancelDownload
        (drun [Spawn 1, CancelCalled, ChildExit 1, CloseEvent 1 None, Spawn 2, ErrorEmitted 2]
           no_download))) 1
       = \<lparr>killed = True, running = False, received = [SIGTERM]\<rparr>"
proof -
  let ?evs = "[Spawn 1, CancelCalled, ChildExit 1, CloseEvent 1 None, Spawn 2, ErrorEmitted 2]"
  let ?s = "no_download"
  have wf: "wellformed [] ?evs" by simp
  have h: "currentDownloadProcess (fst ?s) = None"
    by (simp add: no_download_def fresh_manager_def)
  have e: "ended ?evs = [1, 2]" by simp
  have c: "snd (drun ?evs ?s) 1 = \<lparr>killed = True, running = False, received = [SIGTERM]\<rparr>"
    by (simp add: drun_def cancelDownload_def kill_def no_child_def no_download_def)
  from handle_cleared_when_download_ends
         [of 2 None ?s "[Spawn 1, CancelCalled, ChildExit 1, CloseEvent 1 None, Spawn 2]"]
  have f: "cancelDownload (drun ?evs ?s)
       = (CancelFailed (js ''No active download to cancel''), snd (drun ?evs ?s), False)"
    by simp
  from handle_cleared_when_download_ends [of 1 None ?s ?evs] wf h e
  have "fst (snd (cancelDownload (drun ?evs ?s))) 1 = snd (drun ?evs ?s) 1"
    by simp
  with c have u: "fst (snd (cancelDownload (drun ?evs ?s))) 1
       = \<lparr>killed = True, running = False, received = [SIGTERM]\<rparr>"
    by simp
  show ?thesis
    by (intro conjI) (rule wf h e f c u)+
qed

end
